theory Spec2Isabelle
  imports Main "HOL-Library.Word"
begin

section \<open>Data model\<close>

text \<open>
  The package \<open>coveralls\<close> is a client of the Coveralls repository API. Its logic is the
  three methods \<open>Get\<close>, \<open>Add\<close> and \<open>Update\<close> of \<open>RepositoryServiceImpl\<close>; each performs one HTTP
  exchange through a resty client and maps the status code of the response to a result or
  to an error value.

  A \<open>float64\<close> is kept as its 64 bits. No arithmetic is done on it by the package.
\<close>

datatype float64 = Float64 "64 word"

text \<open>
  \<open>Repository\<close> and \<open>RepositoryConfig\<close>, field by field. A pointer field (\<open>*bool\<close>,
  \<open>*float64\<close>) is an \<open>option\<close>: \<open>None\<close> is the nil pointer.
\<close>

record Repository =
  ID :: int
  Name :: string
  Service :: string
  CommentOnPullRequests :: "bool option"
  SendBuildStatus :: "bool option"
  CommitStatusFailThreshold :: "float64 option"
  CommitStatusFailChangeThreshold :: "float64 option"
  HasBadge :: bool
  Token :: string
  CreatedAt :: string
  UpdatedAt :: string

record RepositoryConfig =
  cfgService :: string
  cfgName :: string
  cfgCommentOnPullRequests :: "bool option"
  cfgSendBuildStatus :: "bool option"
  cfgCommitStatusFailThreshold :: "float64 option"
  cfgCommitStatusFailChangeThreshold :: "float64 option"

text \<open>The composite literals \<open>Repository{}\<close> and \<open>RepositoryConfig{}\<close>: every field at its zero value.\<close>

definition Repository_zero :: Repository where
  "Repository_zero =
     \<lparr>ID = 0, Name = [], Service = [], CommentOnPullRequests = None, SendBuildStatus = None,
      CommitStatusFailThreshold = None, CommitStatusFailChangeThreshold = None,
      HasBadge = False, Token = [], CreatedAt = [], UpdatedAt = []\<rparr>"

definition RepositoryConfig_zero :: RepositoryConfig where
  "RepositoryConfig_zero =
     \<lparr>cfgService = [], cfgName = [], cfgCommentOnPullRequests = None, cfgSendBuildStatus = None,
      cfgCommitStatusFailThreshold = None, cfgCommitStatusFailChangeThreshold = None\<rparr>"

subsection \<open>Errors\<close>

text \<open>
  The values of Go's \<open>error\<close> interface that the package can return. \<open>ErrRepoNotFound\<close> and
  \<open>ErrNameIsTaken\<close> are the two sentinel variables, \<open>ErrUnprocessableEntity\<close> and
  \<open>ErrUnexpectedStatusCode\<close> the two struct types with their fields in declaration order
  (\<open>ErrorBody\<close>; \<open>StatusCode\<close>, \<open>ErrorBody\<close>). \<open>TransportError\<close> stands for any error value
  that the resty client itself returns (connection refused, a response that does not decode,
  ...), named by its message. \<open>UnsupportedValueError\<close> and \<open>UnmarshalTypeError\<close> are the
  two errors of \<open>encoding/json\<close> that the structs of the package can meet, the second with
  its \<open>Value\<close> field (the description of the JSON value that did not fit).

  The last three constructors belong to the earlier variant of the same file
  (\<open>src/repositories.go\<close>): its sentinel \<open>ErrUnprocessableEntity\<close>, its sentinel
  \<open>ErrUnexpectedStatusCode\<close>, and \<open>fmt.Errorf("status code %d: %w", c, e)\<close>, which wraps
  \<open>e\<close> together with the status code \<open>c\<close>.
\<close>

datatype error =
    ErrRepoNotFound
  | ErrNameIsTaken
  | ErrUnprocessableEntity string
  | ErrUnexpectedStatusCode int string
  | TransportError string
  | UnsupportedValueError
  | UnmarshalTypeError string
  | ErrUnprocessableEntity_sentinel
  | ErrUnexpectedStatusCode_sentinel
  | Errorf_status_code int error

fun newErrUnprocessableEntity :: "string \<Rightarrow> error" where
  "newErrUnprocessableEntity errorBody = ErrUnprocessableEntity errorBody"

fun newErrUnexpectedStatusCode :: "int \<Rightarrow> string \<Rightarrow> error" where
  "newErrUnexpectedStatusCode c b = ErrUnexpectedStatusCode c b"

subsection \<open>Status codes of \<open>net/http\<close>\<close>

definition StatusOK :: int where "StatusOK = 200"
definition StatusCreated :: int where "StatusCreated = 201"
definition StatusNotFound :: int where "StatusNotFound = 404"
definition StatusUnprocessableEntity :: int where "StatusUnprocessableEntity = 422"

subsection \<open>\<open>strings.Contains\<close>\<close>

text \<open>
  \<open>strings.Contains s substr\<close> reports whether \<open>substr\<close> occurs in \<open>s\<close> as a contiguous run
  of bytes; the empty string occurs in every string. \<open>HasPrefix\<close> is \<open>strings.HasPrefix\<close>.
\<close>

fun HasPrefix :: "string \<Rightarrow> string \<Rightarrow> bool" where
  "HasPrefix s [] = True"
| "HasPrefix [] (c # cs) = False"
| "HasPrefix (d # ds) (c # cs) = (d = c \<and> HasPrefix ds cs)"

fun Contains :: "string \<Rightarrow> string \<Rightarrow> bool" where
  "Contains [] substr = HasPrefix [] substr"
| "Contains (d # ds) substr = (HasPrefix (d # ds) substr \<or> Contains ds substr)"

subsection \<open>The HTTP exchange\<close>

text \<open>
  The resty client is outside the package. It is a parameter of the model: a function from
  the request that the method builds to the pair \<open>(resp, err)\<close> that \<open>Get\<close>, \<open>Post\<close> or \<open>Put\<close>
  of resty returns.

  A request holds what the method sets on \<open>R()\<close>: the context, the body (\<open>SetBody\<close>, absent
  for \<open>Get\<close>), the value that \<open>SetResult\<close> receives, the verb and the URL. The body of \<open>Add\<close>
  and \<open>Update\<close> is a Go map literal with \<open>*RepositoryConfig\<close> values; it is kept as the list
  of its entries, a nil pointer being \<open>None\<close>.

  A response gives \<open>StatusCode()\<close>, \<open>Body()\<close> (the raw bytes) and \<open>Result()\<close>. \<open>Result()\<close> is
  the object that \<open>SetResult\<close> received, after resty has decoded the body into it; its type
  is the parameter \<open>'r\<close>, so the type assertions \<open>.(*Repository)\<close> and
  \<open>.(*RepositoryConfig)\<close> always succeed.
\<close>

datatype verb = GET | POST | PUT

record ('ctx, 'r) Request =
  reqContext :: 'ctx
  reqBody :: "(string \<times> RepositoryConfig option) list option"
  reqResult :: 'r
  reqVerb :: verb
  reqURL :: string

record 'r Response =
  StatusCode :: int
  Body :: string
  Result :: 'r

text \<open>
  \<open>Client\<close>: the resty client and the host URL (as \<open>%s\<close> prints it). \<open>RepositoryServiceImpl\<close>
  is \<open>service\<close>, a struct whose only field is the pointer to the \<open>Client\<close>, so a service
  is modelled by its client.
\<close>

record ('ctx, 'r) Client =
  client :: "('ctx, 'r) Request \<Rightarrow> 'r Response \<times> error option"
  HostURL :: string

section \<open>The repository service (\<open>src/unnamed/part_000\<close>)\<close>

text \<open>
  Each method returns Go's pair \<open>(result, err)\<close>: a pointer that may be nil and an error
  that may be nil. The request is built by a function of its own, so that what is handed to
  the resty client can be stated.
\<close>

definition Get_request :: "('ctx, Repository) Client \<Rightarrow> 'ctx \<Rightarrow> string \<Rightarrow> string \<Rightarrow> ('ctx, Repository) Request" where
  "Get_request s ctx svc repo =
     \<lparr>reqContext = ctx, reqBody = None, reqResult = Repository_zero, reqVerb = GET,
      reqURL = HostURL s @ ''/api/repos/'' @ svc @ ''/'' @ repo\<rparr>"

definition Get :: "('ctx, Repository) Client \<Rightarrow> 'ctx \<Rightarrow> string \<Rightarrow> string \<Rightarrow> Repository option \<times> error option" where
  "Get s ctx svc repo =
     (case client s (Get_request s ctx svc repo) of (resp, err) \<Rightarrow>
        if err \<noteq> None then (None, err)
        else if StatusCode resp = StatusOK then (Some (Result resp), None)
        else if StatusCode resp = StatusNotFound then (None, Some ErrRepoNotFound)
        else (None, Some (newErrUnexpectedStatusCode (StatusCode resp) (Body resp))))"

definition Add_request :: "('ctx, RepositoryConfig) Client \<Rightarrow> 'ctx \<Rightarrow> RepositoryConfig option \<Rightarrow> ('ctx, RepositoryConfig) Request" where
  "Add_request s ctx data =
     \<lparr>reqContext = ctx, reqBody = Some [(''repo'', data)], reqResult = RepositoryConfig_zero,
      reqVerb = POST, reqURL = HostURL s @ ''/api/repos''\<rparr>"

definition Add :: "('ctx, RepositoryConfig) Client \<Rightarrow> 'ctx \<Rightarrow> RepositoryConfig option \<Rightarrow> RepositoryConfig option \<times> error option" where
  "Add s ctx data =
     (case client s (Add_request s ctx data) of (resp, err) \<Rightarrow>
        if err \<noteq> None then (None, err)
        else if StatusCode resp = StatusCreated then (Some (Result resp), None)
        else if StatusCode resp = StatusUnprocessableEntity then
          (let errorBody = Body resp in
           if Contains errorBody ''has already been taken'' then (None, Some ErrNameIsTaken)
           else (None, Some (newErrUnprocessableEntity errorBody)))
        else (None, Some (newErrUnexpectedStatusCode (StatusCode resp) (Body resp))))"

definition Update_request :: "('ctx, RepositoryConfig) Client \<Rightarrow> 'ctx \<Rightarrow> string \<Rightarrow> string \<Rightarrow> RepositoryConfig option \<Rightarrow> ('ctx, RepositoryConfig) Request" where
  "Update_request s ctx svc repo data =
     \<lparr>reqContext = ctx, reqBody = Some [(''repo'', data)], reqResult = RepositoryConfig_zero,
      reqVerb = PUT, reqURL = HostURL s @ ''/api/repos/'' @ svc @ ''/'' @ repo\<rparr>"

definition Update :: "('ctx, RepositoryConfig) Client \<Rightarrow> 'ctx \<Rightarrow> string \<Rightarrow> string \<Rightarrow> RepositoryConfig option \<Rightarrow> RepositoryConfig option \<times> error option" where
  "Update s ctx svc repo data =
     (case client s (Update_request s ctx svc repo data) of (resp, err) \<Rightarrow>
        if err \<noteq> None then (None, err)
        else if StatusCode resp = StatusOK then (Some (Result resp), None)
        else if StatusCode resp = StatusNotFound then (None, Some ErrRepoNotFound)
        else if StatusCode resp = StatusUnprocessableEntity then
          (None, Some (newErrUnprocessableEntity (Body resp)))
        else (None, Some (newErrUnexpectedStatusCode (StatusCode resp) (Body resp))))"

section \<open>The earlier variant of the service (\<open>src/repositories.go\<close>)\<close>

text \<open>
  \<open>src/repositories.go\<close> declares the same three methods with sentinel errors only. The
  requests are built as above; the classification of the response differs: 422 gives the
  sentinel without the body, \<open>Update\<close> has no case for 404, and every other status is wrapped
  by \<open>fmt.Errorf\<close> with the status code and without the body.
\<close>

definition Get_earlier :: "('ctx, Repository) Client \<Rightarrow> 'ctx \<Rightarrow> string \<Rightarrow> string \<Rightarrow> Repository option \<times> error option" where
  "Get_earlier s ctx svc repo =
     (case client s (Get_request s ctx svc repo) of (resp, err) \<Rightarrow>
        if err \<noteq> None then (None, err)
        else if StatusCode resp = StatusOK then (Some (Result resp), None)
        else if StatusCode resp = StatusNotFound then (None, Some ErrRepoNotFound)
        else (None, Some (Errorf_status_code (StatusCode resp) ErrUnexpectedStatusCode_sentinel)))"

definition Add_earlier :: "('ctx, RepositoryConfig) Client \<Rightarrow> 'ctx \<Rightarrow> RepositoryConfig option \<Rightarrow> RepositoryConfig option \<times> error option" where
  "Add_earlier s ctx data =
     (case client s (Add_request s ctx data) of (resp, err) \<Rightarrow>
        if err \<noteq> None then (None, err)
        else if StatusCode resp = StatusCreated then (Some (Result resp), None)
        else if StatusCode resp = StatusUnprocessableEntity then (None, Some ErrUnprocessableEntity_sentinel)
        else (None, Some (Errorf_status_code (StatusCode resp) ErrUnexpectedStatusCode_sentinel)))"

definition Update_earlier :: "('ctx, RepositoryConfig) Client \<Rightarrow> 'ctx \<Rightarrow> string \<Rightarrow> string \<Rightarrow> RepositoryConfig option \<Rightarrow> RepositoryConfig option \<times> error option" where
  "Update_earlier s ctx svc repo data =
     (case client s (Update_request s ctx svc repo data) of (resp, err) \<Rightarrow>
        if err \<noteq> None then (None, err)
        else if StatusCode resp = StatusOK then (Some (Result resp), None)
        else if StatusCode resp = StatusUnprocessableEntity then (None, Some ErrUnprocessableEntity_sentinel)
        else (None, Some (Errorf_status_code (StatusCode resp) ErrUnexpectedStatusCode_sentinel)))"

section \<open>The JSON form of the structs\<close>

text \<open>
  The request body and the result are encoded and decoded by \<open>encoding/json\<close>, which resty
  calls, under the field tags of the two struct declarations. The model works on JSON
  values; the text of a document (white space, escapes, the digits of a number) is not
  modelled. A number is kept as its literal.

  What \<open>encoding/json\<close> takes from \<open>strconv\<close> and from its own case folding is a parameter:
  \<open>ParseInt\<close> and \<open>ParseFloat\<close> read a number literal into an \<open>int\<close> or a \<open>float64\<close> (\<open>None\<close>
  when the literal does not fit the type), \<open>FormatFloat\<close> writes a \<open>float64\<close> (\<open>None\<close> for
  NaN and the infinities, which JSON cannot hold), and \<open>EqualFold name key\<close> says whether
  an object key equals a field name up to the case of its letters.
\<close>

datatype json =
    JNull
  | JBool bool
  | JNumber string
  | JString string
  | JArray "json list"
  | JObject "(string \<times> json) list"

record conv =
  ParseInt :: "string \<Rightarrow> int option"
  ParseFloat :: "string \<Rightarrow> float64 option"
  FormatFloat :: "float64 \<Rightarrow> string option"
  EqualFold :: "string \<Rightarrow> string \<Rightarrow> bool"

subsection \<open>Encoding a \<open>RepositoryConfig\<close>\<close>

text \<open>
  \<open>service\<close> and \<open>name\<close> carry no \<open>omitempty\<close>: they are always written. The four pointer
  fields carry \<open>omitempty\<close>: a nil pointer writes nothing, a non-nil pointer writes the value
  it points to (also \<open>false\<close> and \<open>0\<close>). The members come in the order of the fields.
\<close>

definition omitempty :: "string \<Rightarrow> json option \<Rightarrow> (string \<times> json) list" where
  "omitempty key p = (case p of None \<Rightarrow> [] | Some j \<Rightarrow> [(key, j)])"

definition floatEncoder :: "conv \<Rightarrow> float64 \<Rightarrow> error + json" where
  "floatEncoder cv f =
     (case FormatFloat cv f of None \<Rightarrow> Inl UnsupportedValueError | Some lit \<Rightarrow> Inr (JNumber lit))"

definition floatPtrEncoder :: "conv \<Rightarrow> float64 option \<Rightarrow> error + json option" where
  "floatPtrEncoder cv p =
     (case p of None \<Rightarrow> Inr None
      | Some f \<Rightarrow> (case floatEncoder cv f of Inl e \<Rightarrow> Inl e | Inr j \<Rightarrow> Inr (Some j)))"

definition marshal_RepositoryConfig :: "conv \<Rightarrow> RepositoryConfig \<Rightarrow> error + json" where
  "marshal_RepositoryConfig cv c =
     (case floatPtrEncoder cv (cfgCommitStatusFailThreshold c) of
        Inl e \<Rightarrow> Inl e
      | Inr threshold \<Rightarrow>
          (case floatPtrEncoder cv (cfgCommitStatusFailChangeThreshold c) of
             Inl e \<Rightarrow> Inl e
           | Inr change \<Rightarrow>
               Inr (JObject
                 ([(''service'', JString (cfgService c)), (''name'', JString (cfgName c))]
                  @ omitempty ''comment_on_pull_requests'' (map_option JBool (cfgCommentOnPullRequests c))
                  @ omitempty ''send_build_status'' (map_option JBool (cfgSendBuildStatus c))
                  @ omitempty ''commit_status_fail_threshold'' threshold
                  @ omitempty ''commit_status_fail_change_threshold'' change))))"

text \<open>
  The body is a map with \<open>*RepositoryConfig\<close> values: a nil pointer is written as \<open>null\<close>, a
  non-nil one as the object of its struct. (Go writes the keys of a map in sorted order; the
  map literal of \<open>Add\<close> and \<open>Update\<close> has one key.)
\<close>

definition ptrEncoder :: "conv \<Rightarrow> RepositoryConfig option \<Rightarrow> error + json" where
  "ptrEncoder cv p = (case p of None \<Rightarrow> Inr JNull | Some c \<Rightarrow> marshal_RepositoryConfig cv c)"

fun mapEncoder :: "conv \<Rightarrow> (string \<times> RepositoryConfig option) list \<Rightarrow> error + (string \<times> json) list" where
  "mapEncoder cv [] = Inr []"
| "mapEncoder cv ((key, p) # entries) =
     (case ptrEncoder cv p of
        Inl e \<Rightarrow> Inl e
      | Inr j \<Rightarrow> (case mapEncoder cv entries of Inl e \<Rightarrow> Inl e | Inr js \<Rightarrow> Inr ((key, j) # js)))"

definition Marshal :: "conv \<Rightarrow> (string \<times> RepositoryConfig option) list \<Rightarrow> error + json" where
  "Marshal cv body = (case mapEncoder cv body of Inl e \<Rightarrow> Inl e | Inr js \<Rightarrow> Inr (JObject js))"

text \<open>The keys of a JSON object, in the order of its members.\<close>

definition keys :: "json \<Rightarrow> string list" where
  "keys j = (case j of JObject kvs \<Rightarrow> map fst kvs | _ \<Rightarrow> [])"

subsection \<open>Decoding into a struct\<close>

text \<open>
  \<open>gval\<close> is a field of one of the kinds the two structs have: \<open>int\<close>, \<open>string\<close>, \<open>bool\<close>,
  \<open>*bool\<close> and \<open>*float64\<close>. \<open>decodeValue\<close> stores one JSON value into such a field, as
  \<open>literalStore\<close> of \<open>encoding/json\<close> does after \<open>indirect\<close>: \<open>null\<close> sets a pointer to nil and
  leaves any other field as it is; \<open>true\<close> and \<open>false\<close> fit \<open>bool\<close> and \<open>*bool\<close>; a string
  fits \<open>string\<close>; a number fits \<open>int\<close> and \<open>*float64\<close> when its literal parses; an array or an
  object fits none of the kinds. A value that does not fit is an \<open>UnmarshalTypeError\<close>.
\<close>

datatype gval =
    GInt int
  | GString string
  | GBool bool
  | GBoolPtr "bool option"
  | GFloatPtr "float64 option"

fun decodeValue :: "conv \<Rightarrow> json \<Rightarrow> gval \<Rightarrow> error + gval" where
  "decodeValue cv JNull (GBoolPtr p) = Inr (GBoolPtr None)"
| "decodeValue cv JNull (GFloatPtr p) = Inr (GFloatPtr None)"
| "decodeValue cv JNull v = Inr v"
| "decodeValue cv (JBool b) (GBool old) = Inr (GBool b)"
| "decodeValue cv (JBool b) (GBoolPtr p) = Inr (GBoolPtr (Some b))"
| "decodeValue cv (JBool b) v = Inl (UnmarshalTypeError ''bool'')"
| "decodeValue cv (JString s) (GString old) = Inr (GString s)"
| "decodeValue cv (JString s) v = Inl (UnmarshalTypeError ''string'')"
| "decodeValue cv (JNumber lit) (GInt old) =
     (case ParseInt cv lit of
        None \<Rightarrow> Inl (UnmarshalTypeError (''number '' @ lit))
      | Some n \<Rightarrow> Inr (GInt n))"
| "decodeValue cv (JNumber lit) (GFloatPtr p) =
     (case ParseFloat cv lit of
        None \<Rightarrow> Inl (UnmarshalTypeError (''number '' @ lit))
      | Some f \<Rightarrow> Inr (GFloatPtr (Some f)))"
| "decodeValue cv (JNumber lit) v = Inl (UnmarshalTypeError ''number'')"
| "decodeValue cv (JArray js) v = Inl (UnmarshalTypeError ''array'')"
| "decodeValue cv (JObject kvs) v = Inl (UnmarshalTypeError ''object'')"

text \<open>
  A struct type as \<open>encoding/json\<close> sees it by reflection: its fields in declaration order,
  the JSON name of each field (from its tag), and the access to a field of a value. \<open>Set\<close>
  leaves the struct as it is when the kind of the value is not the kind of the field;
  \<open>decodeValue\<close> never changes the kind.
\<close>

record ('a, 'f) structType =
  fieldList :: "'f list"
  fieldName :: "'f \<Rightarrow> string"
  Field :: "'a \<Rightarrow> 'f \<Rightarrow> gval"
  Set :: "'a \<Rightarrow> 'f \<Rightarrow> gval \<Rightarrow> 'a"

text \<open>
  The field that an object key names: the field whose name is the key, and when there is
  none, the first field whose name equals the key up to case.
\<close>

definition fieldFor :: "conv \<Rightarrow> ('a, 'f) structType \<Rightarrow> string \<Rightarrow> 'f option" where
  "fieldFor cv T key =
     (case find (\<lambda>f. fieldName T f = key) (fieldList T) of
        Some f \<Rightarrow> Some f
      | None \<Rightarrow> find (\<lambda>f. EqualFold cv (fieldName T f) key) (fieldList T))"

text \<open>
  The members of an object are decoded from left to right, each into the field its key
  names; a member whose key names no field is skipped. Go goes on after a value that does
  not fit and returns the first such error at the end; the model returns it at once.
\<close>

fun object :: "conv \<Rightarrow> ('a, 'f) structType \<Rightarrow> (string \<times> json) list \<Rightarrow> 'a \<Rightarrow> error + 'a" where
  "object cv T [] a = Inr a"
| "object cv T ((key, v) # kvs) a =
     (case fieldFor cv T key of
        None \<Rightarrow> object cv T kvs a
      | Some f \<Rightarrow>
          (case decodeValue cv v (Field T a f) of
             Inl e \<Rightarrow> Inl e
           | Inr g \<Rightarrow> object cv T kvs (Set T a f g)))"

definition Unmarshal :: "conv \<Rightarrow> ('a, 'f) structType \<Rightarrow> json \<Rightarrow> 'a \<Rightarrow> error + 'a" where
  "Unmarshal cv T j a =
     (case j of
        JObject kvs \<Rightarrow> object cv T kvs a
      | JNull \<Rightarrow> Inr a
      | JBool b \<Rightarrow> Inl (UnmarshalTypeError ''bool'')
      | JNumber lit \<Rightarrow> Inl (UnmarshalTypeError ''number'')
      | JString s \<Rightarrow> Inl (UnmarshalTypeError ''string'')
      | JArray js \<Rightarrow> Inl (UnmarshalTypeError ''array''))"

subsection \<open>The two structs by reflection\<close>

datatype Repository_field =
    Repository_ID
  | Repository_Name
  | Repository_Service
  | Repository_CommentOnPullRequests
  | Repository_SendBuildStatus
  | Repository_CommitStatusFailThreshold
  | Repository_CommitStatusFailChangeThreshold
  | Repository_HasBadge
  | Repository_Token
  | Repository_CreatedAt
  | Repository_UpdatedAt

fun Repository_name :: "Repository_field \<Rightarrow> string" where
  "Repository_name Repository_ID = ''id''"
| "Repository_name Repository_Name = ''name''"
| "Repository_name Repository_Service = ''service''"
| "Repository_name Repository_CommentOnPullRequests = ''comment_on_pull_requests''"
| "Repository_name Repository_SendBuildStatus = ''send_build_status''"
| "Repository_name Repository_CommitStatusFailThreshold = ''commit_status_fail_threshold''"
| "Repository_name Repository_CommitStatusFailChangeThreshold = ''commit_status_fail_change_threshold''"
| "Repository_name Repository_HasBadge = ''has_badge''"
| "Repository_name Repository_Token = ''token''"
| "Repository_name Repository_CreatedAt = ''created_at''"
| "Repository_name Repository_UpdatedAt = ''updated_at''"

fun Repository_Field :: "Repository \<Rightarrow> Repository_field \<Rightarrow> gval" where
  "Repository_Field r Repository_ID = GInt (ID r)"
| "Repository_Field r Repository_Name = GString (Name r)"
| "Repository_Field r Repository_Service = GString (Service r)"
| "Repository_Field r Repository_CommentOnPullRequests = GBoolPtr (CommentOnPullRequests r)"
| "Repository_Field r Repository_SendBuildStatus = GBoolPtr (SendBuildStatus r)"
| "Repository_Field r Repository_CommitStatusFailThreshold = GFloatPtr (CommitStatusFailThreshold r)"
| "Repository_Field r Repository_CommitStatusFailChangeThreshold = GFloatPtr (CommitStatusFailChangeThreshold r)"
| "Repository_Field r Repository_HasBadge = GBool (HasBadge r)"
| "Repository_Field r Repository_Token = GString (Token r)"
| "Repository_Field r Repository_CreatedAt = GString (CreatedAt r)"
| "Repository_Field r Repository_UpdatedAt = GString (UpdatedAt r)"

fun Repository_Set :: "Repository \<Rightarrow> Repository_field \<Rightarrow> gval \<Rightarrow> Repository" where
  "Repository_Set r Repository_ID (GInt n) = r\<lparr>ID := n\<rparr>"
| "Repository_Set r Repository_Name (GString s) = r\<lparr>Name := s\<rparr>"
| "Repository_Set r Repository_Service (GString s) = r\<lparr>Service := s\<rparr>"
| "Repository_Set r Repository_CommentOnPullRequests (GBoolPtr p) = r\<lparr>CommentOnPullRequests := p\<rparr>"
| "Repository_Set r Repository_SendBuildStatus (GBoolPtr p) = r\<lparr>SendBuildStatus := p\<rparr>"
| "Repository_Set r Repository_CommitStatusFailThreshold (GFloatPtr p) = r\<lparr>CommitStatusFailThreshold := p\<rparr>"
| "Repository_Set r Repository_CommitStatusFailChangeThreshold (GFloatPtr p) = r\<lparr>CommitStatusFailChangeThreshold := p\<rparr>"
| "Repository_Set r Repository_HasBadge (GBool b) = r\<lparr>HasBadge := b\<rparr>"
| "Repository_Set r Repository_Token (GString s) = r\<lparr>Token := s\<rparr>"
| "Repository_Set r Repository_CreatedAt (GString s) = r\<lparr>CreatedAt := s\<rparr>"
| "Repository_Set r Repository_UpdatedAt (GString s) = r\<lparr>UpdatedAt := s\<rparr>"
| "Repository_Set r f g = r"

definition Repository_type :: "(Repository, Repository_field) structType" where
  "Repository_type =
     \<lparr>fieldList =
        [Repository_ID, Repository_Name, Repository_Service, Repository_CommentOnPullRequests,
         Repository_SendBuildStatus, Repository_CommitStatusFailThreshold,
         Repository_CommitStatusFailChangeThreshold, Repository_HasBadge, Repository_Token,
         Repository_CreatedAt, Repository_UpdatedAt],
      fieldName = Repository_name, Field = Repository_Field, Set = Repository_Set\<rparr>"

datatype RepositoryConfig_field =
    RepositoryConfig_Service
  | RepositoryConfig_Name
  | RepositoryConfig_CommentOnPullRequests
  | RepositoryConfig_SendBuildStatus
  | RepositoryConfig_CommitStatusFailThreshold
  | RepositoryConfig_CommitStatusFailChangeThreshold

fun RepositoryConfig_name :: "RepositoryConfig_field \<Rightarrow> string" where
  "RepositoryConfig_name RepositoryConfig_Service = ''service''"
| "RepositoryConfig_name RepositoryConfig_Name = ''name''"
| "RepositoryConfig_name RepositoryConfig_CommentOnPullRequests = ''comment_on_pull_requests''"
| "RepositoryConfig_name RepositoryConfig_SendBuildStatus = ''send_build_status''"
| "RepositoryConfig_name RepositoryConfig_CommitStatusFailThreshold = ''commit_status_fail_threshold''"
| "RepositoryConfig_name RepositoryConfig_CommitStatusFailChangeThreshold = ''commit_status_fail_change_threshold''"

fun RepositoryConfig_Field :: "RepositoryConfig \<Rightarrow> RepositoryConfig_field \<Rightarrow> gval" where
  "RepositoryConfig_Field c RepositoryConfig_Service = GString (cfgService c)"
| "RepositoryConfig_Field c RepositoryConfig_Name = GString (cfgName c)"
| "RepositoryConfig_Field c RepositoryConfig_CommentOnPullRequests = GBoolPtr (cfgCommentOnPullRequests c)"
| "RepositoryConfig_Field c RepositoryConfig_SendBuildStatus = GBoolPtr (cfgSendBuildStatus c)"
| "RepositoryConfig_Field c RepositoryConfig_CommitStatusFailThreshold = GFloatPtr (cfgCommitStatusFailThreshold c)"
| "RepositoryConfig_Field c RepositoryConfig_CommitStatusFailChangeThreshold = GFloatPtr (cfgCommitStatusFailChangeThreshold c)"

fun RepositoryConfig_Set :: "RepositoryConfig \<Rightarrow> RepositoryConfig_field \<Rightarrow> gval \<Rightarrow> RepositoryConfig" where
  "RepositoryConfig_Set c RepositoryConfig_Service (GString s) = c\<lparr>cfgService := s\<rparr>"
| "RepositoryConfig_Set c RepositoryConfig_Name (GString s) = c\<lparr>cfgName := s\<rparr>"
| "RepositoryConfig_Set c RepositoryConfig_CommentOnPullRequests (GBoolPtr p) = c\<lparr>cfgCommentOnPullRequests := p\<rparr>"
| "RepositoryConfig_Set c RepositoryConfig_SendBuildStatus (GBoolPtr p) = c\<lparr>cfgSendBuildStatus := p\<rparr>"
| "RepositoryConfig_Set c RepositoryConfig_CommitStatusFailThreshold (GFloatPtr p) = c\<lparr>cfgCommitStatusFailThreshold := p\<rparr>"
| "RepositoryConfig_Set c RepositoryConfig_CommitStatusFailChangeThreshold (GFloatPtr p) = c\<lparr>cfgCommitStatusFailChangeThreshold := p\<rparr>"
| "RepositoryConfig_Set c f g = c"

definition RepositoryConfig_type :: "(RepositoryConfig, RepositoryConfig_field) structType" where
  "RepositoryConfig_type =
     \<lparr>fieldList =
        [RepositoryConfig_Service, RepositoryConfig_Name, RepositoryConfig_CommentOnPullRequests,
         RepositoryConfig_SendBuildStatus, RepositoryConfig_CommitStatusFailThreshold,
         RepositoryConfig_CommitStatusFailChangeThreshold],
      fieldName = RepositoryConfig_name, Field = RepositoryConfig_Field, Set = RepositoryConfig_Set\<rparr>"

subsection \<open>What a decoded struct owes to the body\<close>

text \<open>
  The vocabulary of the decoding property. \<open>valuesFor\<close> are the values of the members
  whose key names the field \<open>f\<close>, in the order of the body. \<open>zeroOf\<close> is the zero value
  of the kind of a field: nil for a pointer. \<open>agrees\<close> says that a field holds a JSON
  value: a pointer field holding \<open>null\<close> is nil, and holding any other value it is non-nil
  and points to that value. The values that count for a field are all of them for a pointer
  and the ones other than \<open>null\<close> for a field that is not a pointer; a field matches the body
  when it holds the last value that counts, and is at its zero value when there is none.
  A struct matches the body when each of its fields does.
\<close>

definition valuesFor :: "conv \<Rightarrow> ('a, 'f) structType \<Rightarrow> (string \<times> json) list \<Rightarrow> 'f \<Rightarrow> json list" where
  "valuesFor cv T kvs f = map snd (filter (\<lambda>kv. fieldFor cv T (fst kv) = Some f) kvs)"

fun zeroOf :: "gval \<Rightarrow> gval" where
  "zeroOf (GInt n) = GInt 0"
| "zeroOf (GString s) = GString []"
| "zeroOf (GBool b) = GBool False"
| "zeroOf (GBoolPtr p) = GBoolPtr None"
| "zeroOf (GFloatPtr p) = GFloatPtr None"

fun isPointer :: "gval \<Rightarrow> bool" where
  "isPointer (GBoolPtr p) = True"
| "isPointer (GFloatPtr p) = True"
| "isPointer g = False"

fun agrees :: "conv \<Rightarrow> json \<Rightarrow> gval \<Rightarrow> bool" where
  "agrees cv JNull (GBoolPtr p) = (p = None)"
| "agrees cv JNull (GFloatPtr p) = (p = None)"
| "agrees cv (JBool b) (GBool b') = (b' = b)"
| "agrees cv (JBool b) (GBoolPtr p) = (p = Some b)"
| "agrees cv (JString s) (GString s') = (s' = s)"
| "agrees cv (JNumber lit) (GInt n) = (ParseInt cv lit = Some n)"
| "agrees cv (JNumber lit) (GFloatPtr p) = (p \<noteq> None \<and> ParseFloat cv lit = p)"
| "agrees cv j g = False"

definition counting :: "bool \<Rightarrow> json list \<Rightarrow> json list" where
  "counting pointer vs = (if pointer then vs else filter (\<lambda>v. v \<noteq> JNull) vs)"

definition fieldMatches :: "conv \<Rightarrow> ('a, 'f) structType \<Rightarrow> (string \<times> json) list \<Rightarrow> 'a \<Rightarrow> 'f \<Rightarrow> bool" where
  "fieldMatches cv T kvs r f =
     (case counting (isPointer (Field T r f)) (valuesFor cv T kvs f) of
        [] \<Rightarrow> Field T r f = zeroOf (Field T r f)
      | v # vs \<Rightarrow> agrees cv (last (v # vs)) (Field T r f))"

definition matchesBody :: "conv \<Rightarrow> ('a, 'f) structType \<Rightarrow> (string \<times> json) list \<Rightarrow> 'a \<Rightarrow> bool" where
  "matchesBody cv T kvs r = list_all (fieldMatches cv T kvs r) (fieldList T)"

subsection \<open>The same, by the keys of the wire format\<close>

text \<open>
  The property as a reader of the wire format states it, with the keys written out and no
  reference to the decoder. \<open>Repository_keys\<close> and \<open>RepositoryConfig_keys\<close> are the keys
  of the two records. A member with key \<open>k\<close> is a member for the key \<open>key\<close> when \<open>k\<close> is
  that key, or when \<open>k\<close> is none of the keys of the record and \<open>key\<close> is the first of them
  that equals \<open>k\<close> up to case. \<open>holds\<close> says that a field holds what the body has for a key:
  the last value that counts among the members for the key, and the zero value of its kind
  (nil for a pointer) when there is none.
\<close>

definition Repository_keys :: "string list" where
  "Repository_keys =
     [''id'', ''name'', ''service'', ''comment_on_pull_requests'', ''send_build_status'',
      ''commit_status_fail_threshold'', ''commit_status_fail_change_threshold'', ''has_badge'',
      ''token'', ''created_at'', ''updated_at'']"

definition RepositoryConfig_keys :: "string list" where
  "RepositoryConfig_keys =
     [''service'', ''name'', ''comment_on_pull_requests'', ''send_build_status'',
      ''commit_status_fail_threshold'', ''commit_status_fail_change_threshold'']"

definition names :: "conv \<Rightarrow> string list \<Rightarrow> string \<Rightarrow> string \<Rightarrow> bool" where
  "names cv ks key k = (k = key \<or> (k \<notin> set ks \<and> find (\<lambda>t. EqualFold cv t k) ks = Some key))"

definition valuesAt :: "conv \<Rightarrow> string list \<Rightarrow> (string \<times> json) list \<Rightarrow> string \<Rightarrow> json list" where
  "valuesAt cv ks kvs key = map snd (filter (\<lambda>kv. names cv ks key (fst kv)) kvs)"

definition holds :: "conv \<Rightarrow> string list \<Rightarrow> (string \<times> json) list \<Rightarrow> string \<Rightarrow> gval \<Rightarrow> bool" where
  "holds cv ks kvs key g =
     (case counting (isPointer g) (valuesAt cv ks kvs key) of
        [] \<Rightarrow> g = zeroOf g
      | v # vs \<Rightarrow> agrees cv (last (v # vs)) g)"

definition Repository_matches :: "conv \<Rightarrow> (string \<times> json) list \<Rightarrow> Repository \<Rightarrow> bool" where
  "Repository_matches cv kvs r =
     (holds cv Repository_keys kvs ''id'' (GInt (ID r))
      \<and> holds cv Repository_keys kvs ''name'' (GString (Name r))
      \<and> holds cv Repository_keys kvs ''service'' (GString (Service r))
      \<and> holds cv Repository_keys kvs ''comment_on_pull_requests'' (GBoolPtr (CommentOnPullRequests r))
      \<and> holds cv Repository_keys kvs ''send_build_status'' (GBoolPtr (SendBuildStatus r))
      \<and> holds cv Repository_keys kvs ''commit_status_fail_threshold'' (GFloatPtr (CommitStatusFailThreshold r))
      \<and> holds cv Repository_keys kvs ''commit_status_fail_change_threshold'' (GFloatPtr (CommitStatusFailChangeThreshold r))
      \<and> holds cv Repository_keys kvs ''has_badge'' (GBool (HasBadge r))
      \<and> holds cv Repository_keys kvs ''token'' (GString (Token r))
      \<and> holds cv Repository_keys kvs ''created_at'' (GString (CreatedAt r))
      \<and> holds cv Repository_keys kvs ''updated_at'' (GString (UpdatedAt r)))"

definition RepositoryConfig_matches :: "conv \<Rightarrow> (string \<times> json) list \<Rightarrow> RepositoryConfig \<Rightarrow> bool" where
  "RepositoryConfig_matches cv kvs c =
     (holds cv RepositoryConfig_keys kvs ''service'' (GString (cfgService c))
      \<and> holds cv RepositoryConfig_keys kvs ''name'' (GString (cfgName c))
      \<and> holds cv RepositoryConfig_keys kvs ''comment_on_pull_requests'' (GBoolPtr (cfgCommentOnPullRequests c))
      \<and> holds cv RepositoryConfig_keys kvs ''send_build_status'' (GBoolPtr (cfgSendBuildStatus c))
      \<and> holds cv RepositoryConfig_keys kvs ''commit_status_fail_threshold'' (GFloatPtr (cfgCommitStatusFailThreshold c))
      \<and> holds cv RepositoryConfig_keys kvs ''commit_status_fail_change_threshold'' (GFloatPtr (cfgCommitStatusFailChangeThreshold c)))"

subsection \<open>The text of a JSON value\<close>

text \<open>
  \<open>render\<close> writes a JSON value as text, without white space: the members of an object
  and the elements of an array separated by commas, a string between double quotes with
  the double quote, the backslash and the control characters escaped. It serves to say, in
  the examples, that the body of a response is the text of a given object. (A server may
  write the same value with other white space; no theorem assumes this form.)
\<close>

fun commas :: "string list \<Rightarrow> string" where
  "commas [] = []"
| "commas [x] = x"
| "commas (x # y # zs) = x @ '','' @ commas (y # zs)"

definition hexDigit :: "nat \<Rightarrow> char" where
  "hexDigit n = ''0123456789abcdef'' ! (n mod 16)"

fun escape :: "string \<Rightarrow> string" where
  "escape [] = []"
| "escape (c # cs) =
     (if c = CHR 0x22 then [CHR 0x5C, CHR 0x22] @ escape cs
      else if c = CHR 0x5C then [CHR 0x5C, CHR 0x5C] @ escape cs
      else if of_char c < (32 :: nat) then
        [CHR 0x5C, CHR ''u'', CHR ''0'', CHR ''0'', hexDigit (of_char c div 16), hexDigit (of_char c)]
        @ escape cs
      else c # escape cs)"

definition quote :: "string \<Rightarrow> string" where
  "quote s = [CHR 0x22] @ escape s @ [CHR 0x22]"

fun render :: "json \<Rightarrow> string" where
  "render JNull = ''null''"
| "render (JBool b) = (if b then ''true'' else ''false'')"
| "render (JNumber lit) = lit"
| "render (JString s) = quote s"
| "render (JArray js) = ''['' @ commas (map render js) @ '']''"
| "render (JObject kvs) =
     ''{'' @ commas (map (\<lambda>kv. quote (fst kv) @ '':'' @ render (snd kv)) kvs) @ ''}''"

section \<open>Clients and conversions for the examples\<close>

text \<open>
  \<open>answering\<close> is a server that answers every request with the given status and body,
  \<open>Result()\<close> being the object of \<open>SetResult\<close> as resty received it: this is what the
  method sees when resty has not decoded the body (resty decodes a body only when the
  response declares a JSON content type). \<open>serving\<close> is a server that looks at the body of
  the request: to the expected body it answers with the given status and body text,
  \<open>Result()\<close> being the given struct (what resty has decoded); to any other request it
  answers 400. \<open>example_conv\<close> gives the conversions on the literals that the examples use,
  and compares names exactly.
\<close>

definition serving :: "(string \<times> RepositoryConfig option) list option \<Rightarrow> int \<Rightarrow> string \<Rightarrow> 'r \<Rightarrow> string \<Rightarrow> (unit, 'r) Client" where
  "serving expected code body result host =
     \<lparr>client = (\<lambda>req.
        if reqBody req = expected then (\<lparr>StatusCode = code, Body = body, Result = result\<rparr>, None)
        else (\<lparr>StatusCode = 400, Body = ''unexpected request body'', Result = reqResult req\<rparr>, None)),
      HostURL = host\<rparr>"

definition example_conv :: conv where
  "example_conv =
     \<lparr>ParseInt = (\<lambda>lit. if lit = ''42'' then Some 42 else None),
      ParseFloat = (\<lambda>lit. if lit = ''80'' then Some (Float64 0x4054000000000000) else None),
      FormatFloat = (\<lambda>f. if f = Float64 0x4054000000000000 then Some ''80'' else None),
      EqualFold = (\<lambda>name key. name = key)\<rparr>"

definition answering :: "int \<Rightarrow> string \<Rightarrow> string \<Rightarrow> (unit, 'r) Client" where
  "answering code body host =
     \<lparr>client = (\<lambda>req. (\<lparr>StatusCode = code, Body = body, Result = reqResult req\<rparr>, None)),
      HostURL = host\<rparr>"

section \<open>\<open>strings.Contains\<close> is the substring test\<close>

lemma HasPrefix_iff: "HasPrefix s p \<longleftrightarrow> (\<exists>t. s = p @ t)"
  by (induction s p rule: HasPrefix.induct) auto

lemma Contains_iff: "Contains s p \<longleftrightarrow> (\<exists>u t. s = u @ p @ t)"
proof (induction s)
  case Nil
  show ?case by (simp add: HasPrefix_iff)
next
  case (Cons d ds)
  show ?case
  proof
    assume "Contains (d # ds) p"
    then consider "HasPrefix (d # ds) p" | "Contains ds p" by auto
    then show "\<exists>u t. d # ds = u @ p @ t"
    proof cases
      case 1
      then obtain t where "d # ds = p @ t" by (auto simp: HasPrefix_iff)
      then have "d # ds = [] @ p @ t" by simp
      then show ?thesis by blast
    next
      case 2
      then obtain u t where "ds = u @ p @ t" using Cons.IH by blast
      then have "d # ds = (d # u) @ p @ t" by simp
      then show ?thesis by blast
    qed
  next
    assume "\<exists>u t. d # ds = u @ p @ t"
    then obtain u t where ut: "d # ds = u @ p @ t" by blast
    show "Contains (d # ds) p"
    proof (cases u)
      case Nil
      then have "HasPrefix (d # ds) p" using ut by (auto simp: HasPrefix_iff)
      then show ?thesis by simp
    next
      case (Cons e es)
      then have "ds = es @ p @ t" using ut by simp
      then have "Contains ds p" using Cons.IH by blast
      then show ?thesis by simp
    qed
  qed
qed

lemma Contains_suffix_of_marker:
  assumes "Contains s (a @ b)"
  shows "Contains s b"
proof -
  obtain u t where "s = u @ (a @ b) @ t" using assms by (auto simp: Contains_iff)
  then have "s = (u @ a) @ b @ t" by simp
  then show ?thesis unfolding Contains_iff by blast
qed

section \<open>Classification of the responses\<close>

lemmas status_defs = StatusOK_def StatusCreated_def StatusNotFound_def StatusUnprocessableEntity_def

lemma Get_response:
  assumes "client s (Get_request s ctx svc repo) = (resp, None)"
  shows "Get s ctx svc repo =
     (if StatusCode resp = 200 then (Some (Result resp), None)
      else if StatusCode resp = 404 then (None, Some ErrRepoNotFound)
      else (None, Some (ErrUnexpectedStatusCode (StatusCode resp) (Body resp))))"
  using assms by (simp add: Get_def status_defs)

lemma Add_response:
  assumes "client s (Add_request s ctx data) = (resp, None)"
  shows "Add s ctx data =
     (if StatusCode resp = 201 then (Some (Result resp), None)
      else if StatusCode resp = 422 then
        (if Contains (Body resp) ''has already been taken'' then (None, Some ErrNameIsTaken)
         else (None, Some (ErrUnprocessableEntity (Body resp))))
      else (None, Some (ErrUnexpectedStatusCode (StatusCode resp) (Body resp))))"
  using assms by (simp add: Add_def status_defs Let_def)

lemma Update_response:
  assumes "client s (Update_request s ctx svc repo data) = (resp, None)"
  shows "Update s ctx svc repo data =
     (if StatusCode resp = 200 then (Some (Result resp), None)
      else if StatusCode resp = 404 then (None, Some ErrRepoNotFound)
      else if StatusCode resp = 422 then (None, Some (ErrUnprocessableEntity (Body resp)))
      else (None, Some (ErrUnexpectedStatusCode (StatusCode resp) (Body resp))))"
  using assms by (simp add: Update_def status_defs)

lemma answering_client:
  "client (answering code body host) req = (\<lparr>StatusCode = code, Body = body, Result = reqResult req\<rparr>, None)"
  by (simp add: answering_def)

text \<open>
  C1. When the response to \<open>Add\<close> has status 422 and its body contains the text
  \<open>Name has already been taken\<close>, and more generally the marker \<open>has already been taken\<close>
  that the code looks for, \<open>Add\<close> returns a nil result and the error \<open>ErrNameIsTaken\<close>.
\<close>

theorem Add_422_name_taken:
  assumes "client s (Add_request s ctx data) = (resp, None)"
    and "StatusCode resp = 422"
    and "Contains (Body resp) ''Name has already been taken'' \<or> Contains (Body resp) ''has already been taken''"
  shows "Add s ctx data = (None, Some ErrNameIsTaken)"
proof -
  have "Contains (Body resp) (''Name '' @ ''has already been taken'') \<or> Contains (Body resp) ''has already been taken''"
    using assms(3) by simp
  then have "Contains (Body resp) ''has already been taken''"
    using Contains_suffix_of_marker by blast
  then show ?thesis
    using Add_response [OF assms(1)] assms(2) by simp
qed

theorem Add_422_name_taken_witness:
  "client (answering 422 ''Name has already been taken'' ''https://coveralls.io'')
       (Add_request (answering 422 ''Name has already been taken'' ''https://coveralls.io'') () None)
     = (\<lparr>StatusCode = 422, Body = ''Name has already been taken'', Result = RepositoryConfig_zero\<rparr>, None)
   \<and> Contains ''Name has already been taken'' ''has already been taken''
   \<and> Add (answering 422 ''Name has already been taken'' ''https://coveralls.io'') () None
     = (None, Some ErrNameIsTaken)"
  using Add_422_name_taken
    [of "answering 422 ''Name has already been taken'' ''https://coveralls.io''" "()" None
        "\<lparr>StatusCode = 422, Body = ''Name has already been taken'', Result = RepositoryConfig_zero\<rparr>"]
  by (simp add: answering_client Add_request_def)

text \<open>
  C2. When the response to \<open>Add\<close> has status 422 and its body does not contain the marker,
  \<open>Add\<close> returns a nil result and an \<open>ErrUnprocessableEntity\<close> whose \<open>ErrorBody\<close> is the
  whole body; the error is not \<open>ErrNameIsTaken\<close>.
\<close>

theorem Add_422_unprocessable:
  assumes "client s (Add_request s ctx data) = (resp, None)"
    and "StatusCode resp = 422"
    and "\<not> Contains (Body resp) ''has already been taken''"
  shows "Add s ctx data = (None, Some (ErrUnprocessableEntity (Body resp)))
       \<and> snd (Add s ctx data) \<noteq> Some ErrNameIsTaken"
  using Add_response [OF assms(1)] assms(2,3) by simp

theorem Add_422_unprocessable_witness:
  "client (answering 422 ''Service is invalid'' ''https://coveralls.io'')
       (Add_request (answering 422 ''Service is invalid'' ''https://coveralls.io'') () None)
     = (\<lparr>StatusCode = 422, Body = ''Service is invalid'', Result = RepositoryConfig_zero\<rparr>, None)
   \<and> \<not> Contains ''Service is invalid'' ''has already been taken''
   \<and> Add (answering 422 ''Service is invalid'' ''https://coveralls.io'') () None
     = (None, Some (ErrUnprocessableEntity ''Service is invalid''))"
  using Add_422_unprocessable
    [of "answering 422 ''Service is invalid'' ''https://coveralls.io''" "()" None
        "\<lparr>StatusCode = 422, Body = ''Service is invalid'', Result = RepositoryConfig_zero\<rparr>"]
  by (simp add: answering_client Add_request_def)

text \<open>
  C3. When the response to \<open>Update\<close> has status 404, \<open>Update\<close> returns a nil result and the
  error \<open>ErrRepoNotFound\<close>.
\<close>

theorem Update_404_not_found:
  assumes "client s (Update_request s ctx svc repo data) = (resp, None)"
    and "StatusCode resp = 404"
  shows "Update s ctx svc repo data = (None, Some ErrRepoNotFound)"
  using Update_response [OF assms(1)] assms(2) by simp

theorem Update_404_not_found_witness:
  "client (answering 404 ''Not Found'' ''https://coveralls.io'')
       (Update_request (answering 404 ''Not Found'' ''https://coveralls.io'') () ''github'' ''org/repo'' None)
     = (\<lparr>StatusCode = 404, Body = ''Not Found'', Result = RepositoryConfig_zero\<rparr>, None)
   \<and> Update (answering 404 ''Not Found'' ''https://coveralls.io'') () ''github'' ''org/repo'' None
     = (None, Some ErrRepoNotFound)"
  using Update_404_not_found
    [of "answering 404 ''Not Found'' ''https://coveralls.io''" "()" "''github''" "''org/repo''" None
        "\<lparr>StatusCode = 404, Body = ''Not Found'', Result = RepositoryConfig_zero\<rparr>"]
  by (simp add: answering_client Update_request_def)

text \<open>
  C4. When the response to \<open>Get\<close> has a status other than 200 and 404, \<open>Get\<close> returns a nil
  result and an \<open>ErrUnexpectedStatusCode\<close> whose \<open>StatusCode\<close> is that status and whose
  \<open>ErrorBody\<close> is the raw body.
\<close>

theorem Get_unexpected_status:
  assumes "client s (Get_request s ctx svc repo) = (resp, None)"
    and "StatusCode resp \<noteq> 200"
    and "StatusCode resp \<noteq> 404"
  shows "Get s ctx svc repo = (None, Some (ErrUnexpectedStatusCode (StatusCode resp) (Body resp)))"
  using Get_response [OF assms(1)] assms(2,3) by simp

theorem Get_unexpected_status_witness:
  "client (answering 500 ''server error'' ''https://coveralls.io'')
       (Get_request (answering 500 ''server error'' ''https://coveralls.io'') () ''github'' ''org/repo'')
     = (\<lparr>StatusCode = 500, Body = ''server error'', Result = Repository_zero\<rparr>, None)
   \<and> (500::int) \<noteq> 200 \<and> (500::int) \<noteq> 404
   \<and> Get (answering 500 ''server error'' ''https://coveralls.io'') () ''github'' ''org/repo''
     = (None, Some (ErrUnexpectedStatusCode 500 ''server error''))"
  using Get_unexpected_status
    [of "answering 500 ''server error'' ''https://coveralls.io''" "()" "''github''" "''org/repo''"
        "\<lparr>StatusCode = 500, Body = ''server error'', Result = Repository_zero\<rparr>"]
  by (simp add: answering_client Get_request_def)

text \<open>
  C5. When the response to \<open>Update\<close> has status 422, \<open>Update\<close> returns a nil result and an
  \<open>ErrUnprocessableEntity\<close> whose \<open>ErrorBody\<close> is the raw body, whatever the body says: the
  error is never \<open>ErrNameIsTaken\<close>, also when the body contains the marker of \<open>Add\<close>.
\<close>

theorem Update_422_unprocessable:
  assumes "client s (Update_request s ctx svc repo data) = (resp, None)"
    and "StatusCode resp = 422"
  shows "Update s ctx svc repo data = (None, Some (ErrUnprocessableEntity (Body resp)))
       \<and> snd (Update s ctx svc repo data) \<noteq> Some ErrNameIsTaken"
  using Update_response [OF assms(1)] assms(2) by simp

theorem Update_422_unprocessable_witness:
  "client (answering 422 ''Name has already been taken'' ''https://coveralls.io'')
       (Update_request (answering 422 ''Name has already been taken'' ''https://coveralls.io'') () ''github'' ''org/repo'' None)
     = (\<lparr>StatusCode = 422, Body = ''Name has already been taken'', Result = RepositoryConfig_zero\<rparr>, None)
   \<and> Contains ''Name has already been taken'' ''has already been taken''
   \<and> Update (answering 422 ''Name has already been taken'' ''https://coveralls.io'') () ''github'' ''org/repo'' None
     = (None, Some (ErrUnprocessableEntity ''Name has already been taken''))"
  using Update_422_unprocessable
    [of "answering 422 ''Name has already been taken'' ''https://coveralls.io''" "()" "''github''" "''org/repo''" None
        "\<lparr>StatusCode = 422, Body = ''Name has already been taken'', Result = RepositoryConfig_zero\<rparr>"]
  by (simp add: answering_client Update_request_def)

text \<open>
  C9. Every call of \<open>Get\<close>, \<open>Add\<close> and \<open>Update\<close> returns either a non-nil result with a nil
  error, or a nil result with one non-nil error; never both, never neither. This holds for
  every behaviour of the resty client, also when it returns an error of its own.
\<close>

theorem result_xor_error:
  "((\<exists>r. Get s ctx svc repo = (Some r, None)) \<or> (\<exists>e. Get s ctx svc repo = (None, Some e)))
   \<and> ((\<exists>r. Add s' ctx data = (Some r, None)) \<or> (\<exists>e. Add s' ctx data = (None, Some e)))
   \<and> ((\<exists>r. Update s' ctx svc repo data = (Some r, None)) \<or> (\<exists>e. Update s' ctx svc repo data = (None, Some e)))"
proof (intro conjI)
  obtain resp err where g: "client s (Get_request s ctx svc repo) = (resp, err)"
    by (cases "client s (Get_request s ctx svc repo)")
  show "(\<exists>r. Get s ctx svc repo = (Some r, None)) \<or> (\<exists>e. Get s ctx svc repo = (None, Some e))"
    by (cases err) (simp_all add: Get_def g)
next
  obtain resp err where a: "client s' (Add_request s' ctx data) = (resp, err)"
    by (cases "client s' (Add_request s' ctx data)")
  show "(\<exists>r. Add s' ctx data = (Some r, None)) \<or> (\<exists>e. Add s' ctx data = (None, Some e))"
    by (cases err) (simp_all add: Add_def a Let_def)
next
  obtain resp err where u: "client s' (Update_request s' ctx svc repo data) = (resp, err)"
    by (cases "client s' (Update_request s' ctx svc repo data)")
  show "(\<exists>r. Update s' ctx svc repo data = (Some r, None)) \<or> (\<exists>e. Update s' ctx svc repo data = (None, Some e))"
    by (cases err) (simp_all add: Update_def u)
qed

theorem result_xor_error_witness:
  "Get (answering 200 ''{}'' ''https://coveralls.io'') () ''github'' ''org/repo'' = (Some Repository_zero, None)
   \<and> Add (answering 500 ''server error'' ''https://coveralls.io'') () None
       = (None, Some (ErrUnexpectedStatusCode 500 ''server error''))
   \<and> Update (answering 200 ''{}'' ''https://coveralls.io'') () ''github'' ''org/repo'' None
       = (Some RepositoryConfig_zero, None)"
  using result_xor_error
    [of "answering 200 ''{}'' ''https://coveralls.io''" "()" "''github''" "''org/repo''"
        "answering 500 ''server error'' ''https://coveralls.io''" None]
  by (simp add: Get_def Add_def Update_def answering_client status_defs
        Get_request_def Add_request_def Update_request_def)

text \<open>
  C10. On a 422 response \<open>Add\<close> looks only for the text \<open>has already been taken\<close>, anywhere
  in the body: it returns \<open>ErrNameIsTaken\<close> exactly when the body contains that text,
  whichever attribute the server's message is about.
\<close>

theorem Add_422_marker_only:
  assumes "client s (Add_request s ctx data) = (resp, None)"
    and "StatusCode resp = 422"
  shows "(Add s ctx data = (None, Some ErrNameIsTaken))
       = (\<exists>before after. Body resp = before @ ''has already been taken'' @ after)"
  using Add_response [OF assms(1)] assms(2) by (simp add: Contains_iff)

theorem Add_422_marker_only_witness:
  "client (answering 422 ''Email has already been taken'' ''https://coveralls.io'')
       (Add_request (answering 422 ''Email has already been taken'' ''https://coveralls.io'') () None)
     = (\<lparr>StatusCode = 422, Body = ''Email has already been taken'', Result = RepositoryConfig_zero\<rparr>, None)
   \<and> Add (answering 422 ''Email has already been taken'' ''https://coveralls.io'') () None
     = (None, Some ErrNameIsTaken)"
proof -
  have "''Email has already been taken'' = ''Email '' @ ''has already been taken'' @ []"
    by simp
  then have "\<exists>before after. ''Email has already been taken'' = before @ ''has already been taken'' @ after"
    by blast
  then show ?thesis
    using Add_422_marker_only
      [of "answering 422 ''Email has already been taken'' ''https://coveralls.io''" "()" None
          "\<lparr>StatusCode = 422, Body = ''Email has already been taken'', Result = RepositoryConfig_zero\<rparr>"]
    by (simp add: answering_client Add_request_def)
qed

section \<open>The earlier variant classifies differently\<close>

text \<open>
  For comparison, what \<open>src/repositories.go\<close> returns on the responses that the later
  variant refines: the body never reaches the error, a 422 of \<open>Add\<close> is never
  \<open>ErrNameIsTaken\<close>, and a 404 of \<open>Update\<close> is an unexpected status code.
\<close>

lemma Get_earlier_response:
  assumes "client s (Get_request s ctx svc repo) = (resp, None)"
  shows "Get_earlier s ctx svc repo =
     (if StatusCode resp = 200 then (Some (Result resp), None)
      else if StatusCode resp = 404 then (None, Some ErrRepoNotFound)
      else (None, Some (Errorf_status_code (StatusCode resp) ErrUnexpectedStatusCode_sentinel)))"
  using assms by (simp add: Get_earlier_def status_defs)

lemma Add_earlier_response:
  assumes "client s (Add_request s ctx data) = (resp, None)"
  shows "Add_earlier s ctx data =
     (if StatusCode resp = 201 then (Some (Result resp), None)
      else if StatusCode resp = 422 then (None, Some ErrUnprocessableEntity_sentinel)
      else (None, Some (Errorf_status_code (StatusCode resp) ErrUnexpectedStatusCode_sentinel)))"
  using assms by (simp add: Add_earlier_def status_defs)

lemma Update_earlier_response:
  assumes "client s (Update_request s ctx svc repo data) = (resp, None)"
  shows "Update_earlier s ctx svc repo data =
     (if StatusCode resp = 200 then (Some (Result resp), None)
      else if StatusCode resp = 422 then (None, Some ErrUnprocessableEntity_sentinel)
      else (None, Some (Errorf_status_code (StatusCode resp) ErrUnexpectedStatusCode_sentinel)))"
  using assms by (simp add: Update_earlier_def status_defs)

lemma Update_earlier_404:
  "Update_earlier (answering 404 ''Not Found'' ''https://coveralls.io'') () ''github'' ''org/repo'' None
     = (None, Some (Errorf_status_code 404 ErrUnexpectedStatusCode_sentinel))"
  by (simp add: Update_earlier_def answering_client status_defs)

lemma Add_earlier_422:
  "Add_earlier (answering 422 ''Name has already been taken'' ''https://coveralls.io'') () None
     = (None, Some ErrUnprocessableEntity_sentinel)"
  by (simp add: Add_earlier_def answering_client status_defs)

section \<open>The request body\<close>

text \<open>
  A method consults the resty client at one request only, the one its \<open>_request\<close> function
  builds: two clients with the same host that answer this request alike give the same
  outcome.
\<close>

lemma Add_sends:
  assumes "HostURL s = HostURL s'"
    and "client s (Add_request s ctx data) = client s' (Add_request s ctx data)"
  shows "Add s ctx data = Add s' ctx data"
proof -
  have "Add_request s' ctx data = Add_request s ctx data"
    using assms(1) by (simp add: Add_request_def)
  then show ?thesis using assms(2) by (simp add: Add_def)
qed

lemma Update_sends:
  assumes "HostURL s = HostURL s'"
    and "client s (Update_request s ctx svc repo data) = client s' (Update_request s ctx svc repo data)"
  shows "Update s ctx svc repo data = Update s' ctx svc repo data"
proof -
  have "Update_request s' ctx svc repo data = Update_request s ctx svc repo data"
    using assms(1) by (simp add: Update_request_def)
  then show ?thesis using assms(2) by (simp add: Update_def)
qed

lemma omitempty_keys: "map fst (omitempty key p) = (case p of None \<Rightarrow> [] | Some j \<Rightarrow> [key])"
  by (simp add: omitempty_def split: option.splits)

lemma floatPtrEncoder_None: "floatPtrEncoder cv None = Inr None"
  by (simp add: floatPtrEncoder_def)

lemma floatPtrEncoder_Inr_None: "floatPtrEncoder cv p = Inr None \<longleftrightarrow> p = None"
  by (simp add: floatPtrEncoder_def split: option.splits sum.splits)

lemma marshal_RepositoryConfig_keys:
  assumes "marshal_RepositoryConfig cv c = Inr j"
  shows "keys j = [''service'', ''name'']
     @ (case cfgCommentOnPullRequests c of None \<Rightarrow> [] | Some b \<Rightarrow> [''comment_on_pull_requests''])
     @ (case cfgSendBuildStatus c of None \<Rightarrow> [] | Some b \<Rightarrow> [''send_build_status''])
     @ (case cfgCommitStatusFailThreshold c of None \<Rightarrow> [] | Some f \<Rightarrow> [''commit_status_fail_threshold''])
     @ (case cfgCommitStatusFailChangeThreshold c of None \<Rightarrow> [] | Some f \<Rightarrow> [''commit_status_fail_change_threshold''])"
  using assms
  by (auto simp: marshal_RepositoryConfig_def keys_def omitempty_def floatPtrEncoder_def
      split: sum.splits option.splits)

text \<open>
  C6. In the JSON object of a \<open>RepositoryConfig\<close>, an optional field that is nil has no
  member at all: its key is not among the keys of the object. A config whose four optional
  fields are nil is written as the object of \<open>service\<close> and \<open>name\<close> alone.
\<close>

theorem unset_fields_omitted:
  assumes "marshal_RepositoryConfig cv c = Inr j"
  shows "(cfgCommentOnPullRequests c = None \<longrightarrow> ''comment_on_pull_requests'' \<notin> set (keys j))
       \<and> (cfgSendBuildStatus c = None \<longrightarrow> ''send_build_status'' \<notin> set (keys j))
       \<and> (cfgCommitStatusFailThreshold c = None \<longrightarrow> ''commit_status_fail_threshold'' \<notin> set (keys j))
       \<and> (cfgCommitStatusFailChangeThreshold c = None \<longrightarrow> ''commit_status_fail_change_threshold'' \<notin> set (keys j))
       \<and> (cfgCommentOnPullRequests c = None \<and> cfgSendBuildStatus c = None
            \<and> cfgCommitStatusFailThreshold c = None \<and> cfgCommitStatusFailChangeThreshold c = None
          \<longrightarrow> j = JObject [(''service'', JString (cfgService c)), (''name'', JString (cfgName c))])"
proof (intro conjI impI)
  note k = marshal_RepositoryConfig_keys [OF assms]
  show "''comment_on_pull_requests'' \<notin> set (keys j)" if "cfgCommentOnPullRequests c = None"
    using that by (simp add: k split: option.splits)
  show "''send_build_status'' \<notin> set (keys j)" if "cfgSendBuildStatus c = None"
    using that by (simp add: k split: option.splits)
  show "''commit_status_fail_threshold'' \<notin> set (keys j)" if "cfgCommitStatusFailThreshold c = None"
    using that by (simp add: k split: option.splits)
  show "''commit_status_fail_change_threshold'' \<notin> set (keys j)" if "cfgCommitStatusFailChangeThreshold c = None"
    using that by (simp add: k split: option.splits)
  show "j = JObject [(''service'', JString (cfgService c)), (''name'', JString (cfgName c))]"
    if "cfgCommentOnPullRequests c = None \<and> cfgSendBuildStatus c = None
            \<and> cfgCommitStatusFailThreshold c = None \<and> cfgCommitStatusFailChangeThreshold c = None"
    using that assms
    by (simp add: marshal_RepositoryConfig_def omitempty_def floatPtrEncoder_def)
qed

theorem unset_fields_omitted_witness:
  "marshal_RepositoryConfig example_conv
       \<lparr>cfgService = ''github'', cfgName = ''org/repo'', cfgCommentOnPullRequests = None,
        cfgSendBuildStatus = None, cfgCommitStatusFailThreshold = None,
        cfgCommitStatusFailChangeThreshold = None\<rparr>
     = Inr (JObject [(''service'', JString ''github''), (''name'', JString ''org/repo'')])
   \<and> keys (JObject [(''service'', JString ''github''), (''name'', JString ''org/repo'')])
     = [''service'', ''name'']"
  using unset_fields_omitted
    [of example_conv
        "\<lparr>cfgService = ''github'', cfgName = ''org/repo'', cfgCommentOnPullRequests = None,
          cfgSendBuildStatus = None, cfgCommitStatusFailThreshold = None,
          cfgCommitStatusFailChangeThreshold = None\<rparr>"
        "JObject [(''service'', JString ''github''), (''name'', JString ''org/repo'')]"]
  by (simp add: marshal_RepositoryConfig_def floatPtrEncoder_def omitempty_def keys_def)

text \<open>A field that is set is written, also when it points to \<open>false\<close>.\<close>

lemma set_fields_written:
  "marshal_RepositoryConfig example_conv
       \<lparr>cfgService = ''github'', cfgName = ''org/repo'', cfgCommentOnPullRequests = Some False,
        cfgSendBuildStatus = None, cfgCommitStatusFailThreshold = Some (Float64 0x4054000000000000),
        cfgCommitStatusFailChangeThreshold = None\<rparr>
     = Inr (JObject [(''service'', JString ''github''), (''name'', JString ''org/repo''),
                     (''comment_on_pull_requests'', JBool False),
                     (''commit_status_fail_threshold'', JNumber ''80'')])"
  by (simp add: marshal_RepositoryConfig_def floatPtrEncoder_def floatEncoder_def omitempty_def
        example_conv_def)

lemma Marshal_repo:
  "Marshal cv [(''repo'', data)] =
     (case ptrEncoder cv data of Inl e \<Rightarrow> Inl e | Inr j \<Rightarrow> Inr (JObject [(''repo'', j)]))"
  by (simp add: Marshal_def split: sum.splits)

text \<open>An error of the resty client is the error of the call.\<close>

lemma Add_transport_error:
  assumes "client s (Add_request s ctx data) = (resp, Some e)"
  shows "Add s ctx data = (None, Some e)"
  using assms by (simp add: Add_def)

lemma Update_transport_error:
  assumes "client s (Update_request s ctx svc repo data) = (resp, Some e)"
  shows "Update s ctx svc repo data = (None, Some e)"
  using assms by (simp add: Update_def)

lemma Get_transport_error:
  assumes "client s (Get_request s ctx svc repo) = (resp, Some e)"
  shows "Get s ctx svc repo = (None, Some e)"
  using assms by (simp add: Get_def)

text \<open>
  C8. A call of \<open>Add\<close> or \<open>Update\<close> with a config hands to the resty client one request,
  whose body is written as the JSON object with the single key \<open>repo\<close> over the object of
  the config. That this is the request of the call is stated by what the call returns: the
  answer of the client to this request (its error when it has one, its result on the
  success status), and the same outcome for every client that answers this request alike.
\<close>

theorem body_envelope:
  assumes "marshal_RepositoryConfig cv c = Inr j"
  shows "(\<exists>body. reqBody (Add_request s ctx (Some c)) = Some body
            \<and> Marshal cv body = Inr (JObject [(''repo'', j)]))
       \<and> (\<forall>resp e. client s (Add_request s ctx (Some c)) = (resp, Some e)
            \<longrightarrow> Add s ctx (Some c) = (None, Some e))
       \<and> (\<forall>resp. client s (Add_request s ctx (Some c)) = (resp, None) \<and> StatusCode resp = 201
            \<longrightarrow> Add s ctx (Some c) = (Some (Result resp), None))
       \<and> (\<forall>t. HostURL t = HostURL s
              \<and> client t (Add_request s ctx (Some c)) = client s (Add_request s ctx (Some c))
            \<longrightarrow> Add t ctx (Some c) = Add s ctx (Some c))
       \<and> (\<exists>body. reqBody (Update_request s' ctx svc repo (Some c)) = Some body
            \<and> Marshal cv body = Inr (JObject [(''repo'', j)]))
       \<and> (\<forall>resp e. client s' (Update_request s' ctx svc repo (Some c)) = (resp, Some e)
            \<longrightarrow> Update s' ctx svc repo (Some c) = (None, Some e))
       \<and> (\<forall>resp. client s' (Update_request s' ctx svc repo (Some c)) = (resp, None) \<and> StatusCode resp = 200
            \<longrightarrow> Update s' ctx svc repo (Some c) = (Some (Result resp), None))
       \<and> (\<forall>t. HostURL t = HostURL s'
              \<and> client t (Update_request s' ctx svc repo (Some c)) = client s' (Update_request s' ctx svc repo (Some c))
            \<longrightarrow> Update t ctx svc repo (Some c) = Update s' ctx svc repo (Some c))"
proof (intro conjI allI impI)
  show "\<exists>body. reqBody (Add_request s ctx (Some c)) = Some body
            \<and> Marshal cv body = Inr (JObject [(''repo'', j)])"
    using assms by (simp add: Add_request_def Marshal_repo ptrEncoder_def)
  show "\<exists>body. reqBody (Update_request s' ctx svc repo (Some c)) = Some body
            \<and> Marshal cv body = Inr (JObject [(''repo'', j)])"
    using assms by (simp add: Update_request_def Marshal_repo ptrEncoder_def)
next
  fix resp e
  assume "client s (Add_request s ctx (Some c)) = (resp, Some e)"
  then show "Add s ctx (Some c) = (None, Some e)" by (rule Add_transport_error)
next
  fix resp
  assume "client s (Add_request s ctx (Some c)) = (resp, None) \<and> StatusCode resp = 201"
  then show "Add s ctx (Some c) = (Some (Result resp), None)"
    using Add_response [of s ctx "Some c" resp] by simp
next
  fix resp e
  assume "client s' (Update_request s' ctx svc repo (Some c)) = (resp, Some e)"
  then show "Update s' ctx svc repo (Some c) = (None, Some e)" by (rule Update_transport_error)
next
  fix resp
  assume "client s' (Update_request s' ctx svc repo (Some c)) = (resp, None) \<and> StatusCode resp = 200"
  then show "Update s' ctx svc repo (Some c) = (Some (Result resp), None)"
    using Update_response [of s' ctx svc repo "Some c" resp] by simp
next
  fix t :: "(_, RepositoryConfig) Client"
  assume "HostURL t = HostURL s
              \<and> client t (Add_request s ctx (Some c)) = client s (Add_request s ctx (Some c))"
  then show "Add t ctx (Some c) = Add s ctx (Some c)"
    using Add_sends [of t s ctx "Some c"] by (simp add: Add_request_def)
next
  fix t :: "(_, RepositoryConfig) Client"
  assume "HostURL t = HostURL s'
              \<and> client t (Update_request s' ctx svc repo (Some c)) = client s' (Update_request s' ctx svc repo (Some c))"
  then show "Update t ctx svc repo (Some c) = Update s' ctx svc repo (Some c)"
    using Update_sends [of t s' ctx svc repo "Some c"] by (simp add: Update_request_def)
qed

lemma serving_client:
  "client (serving expected code body result host) req =
     (if reqBody req = expected then (\<lparr>StatusCode = code, Body = body, Result = result\<rparr>, None)
      else (\<lparr>StatusCode = 400, Body = ''unexpected request body'', Result = reqResult req\<rparr>, None))"
  by (simp add: serving_def)

theorem body_envelope_witness:
  "marshal_RepositoryConfig example_conv
       \<lparr>cfgService = ''github'', cfgName = ''org/repo'', cfgCommentOnPullRequests = None,
        cfgSendBuildStatus = None, cfgCommitStatusFailThreshold = None,
        cfgCommitStatusFailChangeThreshold = None\<rparr>
     = Inr (JObject [(''service'', JString ''github''), (''name'', JString ''org/repo'')])
   \<and> Marshal example_conv
       [(''repo'', Some \<lparr>cfgService = ''github'', cfgName = ''org/repo'', cfgCommentOnPullRequests = None,
                        cfgSendBuildStatus = None, cfgCommitStatusFailThreshold = None,
                        cfgCommitStatusFailChangeThreshold = None\<rparr>)]
     = Inr (JObject [(''repo'', JObject [(''service'', JString ''github''), (''name'', JString ''org/repo'')])])
   \<and> Add (serving
            (Some [(''repo'', Some \<lparr>cfgService = ''github'', cfgName = ''org/repo'', cfgCommentOnPullRequests = None,
                        cfgSendBuildStatus = None, cfgCommitStatusFailThreshold = None,
                        cfgCommitStatusFailChangeThreshold = None\<rparr>)])
            201 [] RepositoryConfig_zero ''https://coveralls.io'') ()
        (Some \<lparr>cfgService = ''github'', cfgName = ''org/repo'', cfgCommentOnPullRequests = None,
               cfgSendBuildStatus = None, cfgCommitStatusFailThreshold = None,
               cfgCommitStatusFailChangeThreshold = None\<rparr>)
     = (Some RepositoryConfig_zero, None)
   \<and> Update (serving
            (Some [(''repo'', Some \<lparr>cfgService = ''github'', cfgName = ''org/repo'', cfgCommentOnPullRequests = None,
                        cfgSendBuildStatus = None, cfgCommitStatusFailThreshold = None,
                        cfgCommitStatusFailChangeThreshold = None\<rparr>)])
            200 [] RepositoryConfig_zero ''https://coveralls.io'') () ''github'' ''org/repo''
        (Some \<lparr>cfgService = ''github'', cfgName = ''org/repo'', cfgCommentOnPullRequests = None,
               cfgSendBuildStatus = None, cfgCommitStatusFailThreshold = None,
               cfgCommitStatusFailChangeThreshold = None\<rparr>)
     = (Some RepositoryConfig_zero, None)"
proof -
  let ?c = "\<lparr>cfgService = ''github'', cfgName = ''org/repo'', cfgCommentOnPullRequests = None,
        cfgSendBuildStatus = None, cfgCommitStatusFailThreshold = None,
        cfgCommitStatusFailChangeThreshold = None\<rparr>"
  let ?j = "JObject [(''service'', JString ''github''), (''name'', JString ''org/repo'')]"
  let ?s = "serving (Some [(''repo'', Some ?c)]) 201 [] RepositoryConfig_zero ''https://coveralls.io'' :: (unit, RepositoryConfig) Client"
  let ?s' = "serving (Some [(''repo'', Some ?c)]) 200 [] RepositoryConfig_zero ''https://coveralls.io'' :: (unit, RepositoryConfig) Client"
  have m: "marshal_RepositoryConfig example_conv ?c = Inr ?j"
    by (simp add: marshal_RepositoryConfig_def floatPtrEncoder_def omitempty_def)
  have a: "client ?s (Add_request ?s () (Some ?c)) = (\<lparr>StatusCode = 201, Body = [], Result = RepositoryConfig_zero\<rparr>, None)"
    by (simp add: serving_client Add_request_def)
  have u: "client ?s' (Update_request ?s' () ''github'' ''org/repo'' (Some ?c)) = (\<lparr>StatusCode = 200, Body = [], Result = RepositoryConfig_zero\<rparr>, None)"
    by (simp add: serving_client Update_request_def)
  have e: "Marshal example_conv [(''repo'', Some ?c)] = Inr (JObject [(''repo'', ?j)])"
    by (simp add: Marshal_repo ptrEncoder_def m)
  from body_envelope [OF m, of ?s "()" ?s' "''github''" "''org/repo''"]
  have "Add ?s () (Some ?c) = (Some RepositoryConfig_zero, None)"
    and "Update ?s' () ''github'' ''org/repo'' (Some ?c) = (Some RepositoryConfig_zero, None)"
    using a u by simp_all
  then show ?thesis using m e by simp
qed

text \<open>With a nil config the value under \<open>repo\<close> is \<open>null\<close>.\<close>

lemma body_envelope_nil:
  "reqBody (Add_request s ctx None) = Some [(''repo'', None)]
   \<and> reqBody (Update_request s ctx svc repo None) = Some [(''repo'', None)]
   \<and> Marshal cv [(''repo'', None)] = Inr (JObject [(''repo'', JNull)])"
  by (simp add: Add_request_def Update_request_def Marshal_repo ptrEncoder_def)

section \<open>Decoding the response\<close>

text \<open>
  Storing a value keeps the kind of the field, and the field then holds the value; \<open>null\<close>
  leaves a field that is not a pointer as it was.
\<close>

lemma decodeValue_kind:
  assumes "decodeValue cv v old = Inr g"
  shows "zeroOf g = zeroOf old"
  using assms
  by (induction cv v old rule: decodeValue.induct) (auto split: option.splits)

lemma isPointer_zeroOf: "isPointer g = isPointer (zeroOf g)"
  by (cases g) simp_all

lemma decodeValue_agrees:
  assumes "decodeValue cv v old = Inr g"
    and "isPointer old \<or> v \<noteq> JNull"
  shows "agrees cv v g"
  using assms
  by (induction cv v old rule: decodeValue.induct) (auto split: option.splits)

lemma decodeValue_null:
  assumes "decodeValue cv JNull old = Inr g"
    and "\<not> isPointer old"
  shows "g = old"
  using assms by (cases old) simp_all

text \<open>
  The invariant of \<open>object\<close>, for any struct type whose \<open>Set\<close> and \<open>Field\<close> behave as
  a write and a read: after the members \<open>kvs\<close>, a field holds the last value that counts
  among the members that name it, and is as before when there is none. The proof is by
  induction on the members, the struct being generalised.
\<close>

lemma valuesFor_Nil: "valuesFor cv T [] f = []"
  by (simp add: valuesFor_def)

lemma valuesFor_Cons:
  "valuesFor cv T ((key, v) # kvs) f =
     (if fieldFor cv T key = Some f then v # valuesFor cv T kvs f else valuesFor cv T kvs f)"
  by (simp add: valuesFor_def)

lemma counting_Cons:
  "counting p (v # vs) = (if p \<or> v \<noteq> JNull then v # counting p vs else counting p vs)"
  by (simp add: counting_def)

lemma object_fields:
  assumes get_set: "\<And>a f g. zeroOf g = zeroOf (Field T a f) \<Longrightarrow> Field T (Set T a f g) f = g"
    and get_other: "\<And>a f f' g. f \<noteq> f' \<Longrightarrow> Field T (Set T a f g) f' = Field T a f'"
    and "object cv T kvs a = Inr r"
  shows "zeroOf (Field T r f) = zeroOf (Field T a f)
       \<and> (case counting (isPointer (Field T a f)) (valuesFor cv T kvs f) of
            [] \<Rightarrow> Field T r f = Field T a f
          | v # vs \<Rightarrow> agrees cv (last (v # vs)) (Field T r f))"
  using assms(3)
proof (induction kvs arbitrary: a)
  case Nil
  then show ?case by (simp add: valuesFor_Nil counting_def)
next
  case (Cons kv kvs)
  obtain key v where kv: "kv = (key, v)" by (cases kv)
  show ?case
  proof (cases "fieldFor cv T key")
    case None
    then have "object cv T kvs a = Inr r" using Cons.prems kv by simp
    then show ?thesis using Cons.IH [of a] None kv by (simp add: valuesFor_Cons)
  next
    case (Some f0)
    then obtain g where g: "decodeValue cv v (Field T a f0) = Inr g"
      and rest: "object cv T kvs (Set T a f0 g) = Inr r"
      using Cons.prems kv by (auto split: sum.splits)
    let ?a1 = "Set T a f0 g"
    have kind: "zeroOf g = zeroOf (Field T a f0)" using g by (rule decodeValue_kind)
    have ih: "zeroOf (Field T r f) = zeroOf (Field T ?a1 f)
       \<and> (case counting (isPointer (Field T ?a1 f)) (valuesFor cv T kvs f) of
            [] \<Rightarrow> Field T r f = Field T ?a1 f
          | v # vs \<Rightarrow> agrees cv (last (v # vs)) (Field T r f))"
      using Cons.IH [OF rest] .
    show ?thesis
    proof (cases "f = f0")
      case False
      then have same: "Field T ?a1 f = Field T a f" using get_other [of f0 f a g] by simp
      have "valuesFor cv T (kv # kvs) f = valuesFor cv T kvs f"
        using False Some kv by (simp add: valuesFor_Cons)
      then show ?thesis using ih same by (auto split: list.splits)
    next
      case True
      have new: "Field T ?a1 f = g" using get_set [OF kind] True by simp
      have k1: "zeroOf (Field T ?a1 f) = zeroOf (Field T a f)" using new kind True by simp
      then have p1: "isPointer (Field T ?a1 f) = isPointer (Field T a f)"
        using isPointer_zeroOf by metis
      have vals: "valuesFor cv T (kv # kvs) f = v # valuesFor cv T kvs f"
        using True Some kv by (simp add: valuesFor_Cons)
      let ?p = "isPointer (Field T a f)"
      let ?ws = "counting ?p (valuesFor cv T kvs f)"
      show ?thesis
      proof (cases ?ws)
        case (Cons w ws)
        then have "agrees cv (last (w # ws)) (Field T r f)" using ih p1 by simp
        then show ?thesis using ih k1 vals Cons by (auto simp: counting_Cons split: list.splits)
      next
        case Nil
        then have eq: "Field T r f = g" using ih p1 new by simp
        show ?thesis
        proof (cases "?p \<or> v \<noteq> JNull")
          case True
          then have "agrees cv v g" using decodeValue_agrees [OF g] \<open>f = f0\<close> by simp
          then show ?thesis using ih k1 vals Nil True eq by (auto simp: counting_Cons split: list.splits)
        next
          case False
          then have "g = Field T a f" using decodeValue_null [of cv "Field T a f0" g] g \<open>f = f0\<close> by simp
          then show ?thesis using ih k1 vals Nil False eq by (auto simp: counting_Cons split: list.splits)
        qed
      qed
    qed
  qed
qed

text \<open>Both structs of the package are such struct types, and start at their zero values.\<close>

lemma Repository_get_set:
  "zeroOf g = zeroOf (Field Repository_type a f) \<Longrightarrow> Field Repository_type (Set Repository_type a f g) f = g"
  by (cases f; cases g) (simp_all add: Repository_type_def)

lemma Repository_get_other:
  "f \<noteq> f' \<Longrightarrow> Field Repository_type (Set Repository_type a f g) f' = Field Repository_type a f'"
  by (cases f; cases g; cases f') (simp_all add: Repository_type_def)

lemma RepositoryConfig_get_set:
  "zeroOf g = zeroOf (Field RepositoryConfig_type a f) \<Longrightarrow> Field RepositoryConfig_type (Set RepositoryConfig_type a f g) f = g"
  by (cases f; cases g) (simp_all add: RepositoryConfig_type_def)

lemma RepositoryConfig_get_other:
  "f \<noteq> f' \<Longrightarrow> Field RepositoryConfig_type (Set RepositoryConfig_type a f g) f' = Field RepositoryConfig_type a f'"
  by (cases f; cases g; cases f') (simp_all add: RepositoryConfig_type_def)

lemma Repository_zero_fields:
  "Field Repository_type Repository_zero f = zeroOf (Field Repository_type Repository_zero f)"
  by (cases f) (simp_all add: Repository_type_def Repository_zero_def)

lemma RepositoryConfig_zero_fields:
  "Field RepositoryConfig_type RepositoryConfig_zero f = zeroOf (Field RepositoryConfig_type RepositoryConfig_zero f)"
  by (cases f) (simp_all add: RepositoryConfig_type_def RepositoryConfig_zero_def)


lemma Unmarshal_matchesBody:
  assumes get_set: "\<And>a f g. zeroOf g = zeroOf (Field T a f) \<Longrightarrow> Field T (Set T a f g) f = g"
    and get_other: "\<And>a f f' g. f \<noteq> f' \<Longrightarrow> Field T (Set T a f g) f' = Field T a f'"
    and zero: "\<And>f. Field T z f = zeroOf (Field T z f)"
    and dec: "Unmarshal cv T (JObject kvs) z = Inr r"
  shows "matchesBody cv T kvs r"
proof -
  have obj: "object cv T kvs z = Inr r" using dec by (simp add: Unmarshal_def)
  have "fieldMatches cv T kvs r f" for f
  proof -
    have both: "zeroOf (Field T r f) = zeroOf (Field T z f)
       \<and> (case counting (isPointer (Field T z f)) (valuesFor cv T kvs f) of
            [] \<Rightarrow> Field T r f = Field T z f
          | v # vs \<Rightarrow> agrees cv (last (v # vs)) (Field T r f))"
      using get_set get_other obj by (rule object_fields)
    then have p: "isPointer (Field T r f) = isPointer (Field T z f)"
      using isPointer_zeroOf by metis
    show ?thesis
    proof (cases "counting (isPointer (Field T z f)) (valuesFor cv T kvs f)")
      case Nil
      then have "Field T r f = Field T z f" using both by simp
      then have "Field T r f = zeroOf (Field T r f)" using zero [of f] by simp
      then show ?thesis using Nil p by (simp add: fieldMatches_def)
    next
      case (Cons w ws)
      then have "agrees cv (last (w # ws)) (Field T r f)" using both by simp
      then show ?thesis using Cons p by (simp add: fieldMatches_def)
    qed
  qed
  then show ?thesis by (simp add: matchesBody_def list_all_iff)
qed

lemma Unmarshal_Repository:
  assumes "Unmarshal cv Repository_type (JObject kvs) Repository_zero = Inr r"
  shows "matchesBody cv Repository_type kvs r"
  using Repository_get_set Repository_get_other Repository_zero_fields assms
  by (rule Unmarshal_matchesBody)

lemma Unmarshal_RepositoryConfig:
  assumes "Unmarshal cv RepositoryConfig_type (JObject kvs) RepositoryConfig_zero = Inr r"
  shows "matchesBody cv RepositoryConfig_type kvs r"
  using RepositoryConfig_get_set RepositoryConfig_get_other RepositoryConfig_zero_fields assms
  by (rule Unmarshal_matchesBody)

text \<open>Spelled out for the optional fields: one that no member of the body names is nil.\<close>

lemma matchesBody_field:
  assumes "matchesBody cv T kvs r" and "f \<in> set (fieldList T)"
  shows "fieldMatches cv T kvs r f"
  using assms by (simp add: matchesBody_def list_all_iff)

lemma omitted_pointer_nil:
  assumes "matchesBody cv Repository_type kvs r"
  shows "(valuesFor cv Repository_type kvs Repository_CommentOnPullRequests = [] \<longrightarrow> CommentOnPullRequests r = None)
       \<and> (valuesFor cv Repository_type kvs Repository_SendBuildStatus = [] \<longrightarrow> SendBuildStatus r = None)
       \<and> (valuesFor cv Repository_type kvs Repository_CommitStatusFailThreshold = [] \<longrightarrow> CommitStatusFailThreshold r = None)
       \<and> (valuesFor cv Repository_type kvs Repository_CommitStatusFailChangeThreshold = [] \<longrightarrow> CommitStatusFailChangeThreshold r = None)"
proof -
  have l: "f \<in> set (fieldList Repository_type)" for f
    by (cases f) (simp_all add: Repository_type_def)
  have m: "fieldMatches cv Repository_type kvs r f" for f
    using assms l by (rule matchesBody_field)
  show ?thesis
    using m [of Repository_CommentOnPullRequests] m [of Repository_SendBuildStatus]
      m [of Repository_CommitStatusFailThreshold] m [of Repository_CommitStatusFailChangeThreshold]
    by (auto simp: fieldMatches_def counting_def Repository_type_def)
qed

lemma omitted_pointer_nil_config:
  assumes "matchesBody cv RepositoryConfig_type kvs r"
  shows "(valuesFor cv RepositoryConfig_type kvs RepositoryConfig_CommentOnPullRequests = [] \<longrightarrow> cfgCommentOnPullRequests r = None)
       \<and> (valuesFor cv RepositoryConfig_type kvs RepositoryConfig_SendBuildStatus = [] \<longrightarrow> cfgSendBuildStatus r = None)
       \<and> (valuesFor cv RepositoryConfig_type kvs RepositoryConfig_CommitStatusFailThreshold = [] \<longrightarrow> cfgCommitStatusFailThreshold r = None)
       \<and> (valuesFor cv RepositoryConfig_type kvs RepositoryConfig_CommitStatusFailChangeThreshold = [] \<longrightarrow> cfgCommitStatusFailChangeThreshold r = None)"
proof -
  have l: "f \<in> set (fieldList RepositoryConfig_type)" for f
    by (cases f) (simp_all add: RepositoryConfig_type_def)
  have m: "fieldMatches cv RepositoryConfig_type kvs r f" for f
    using assms l by (rule matchesBody_field)
  show ?thesis
    using m [of RepositoryConfig_CommentOnPullRequests] m [of RepositoryConfig_SendBuildStatus]
      m [of RepositoryConfig_CommitStatusFailThreshold] m [of RepositoryConfig_CommitStatusFailChangeThreshold]
    by (auto simp: fieldMatches_def counting_def RepositoryConfig_type_def)
qed

text \<open>
  The decoder names a field by a key exactly as the wire format does: the field table of
  each struct has the keys of the record, in order and without repetition.
\<close>

lemma find_map_name:
  "find P (map n fs) = map_option n (find (\<lambda>f. P (n f)) fs)"
  by (induction fs) simp_all

lemma find_exact_None:
  "(find (\<lambda>f'. n f' = k) fs = None) = (k \<notin> set (map n fs))"
  by (induction fs) auto

lemma find_inj:
  assumes "distinct (map n fs)" and "f \<in> set fs"
  shows "(find Q fs = Some f) = (map_option n (find Q fs) = Some (n f))"
proof
  assume "find Q fs = Some f"
  then show "map_option n (find Q fs) = Some (n f)" by simp
next
  assume "map_option n (find Q fs) = Some (n f)"
  then obtain f' where f': "find Q fs = Some f'" and eq: "n f' = n f" by auto
  from f' have "f' \<in> set fs" by (auto simp: find_Some_iff)
  then have "f' = f" using assms eq by (meson distinct_map inj_onD)
  then show "find Q fs = Some f" using f' by simp
qed

lemma fieldFor_names:
  assumes d: "distinct (map (fieldName T) (fieldList T))" and f: "f \<in> set (fieldList T)"
  shows "(fieldFor cv T k = Some f) = names cv (map (fieldName T) (fieldList T)) (fieldName T f) k"
proof (cases "find (\<lambda>f'. fieldName T f' = k) (fieldList T)")
  case None
  then have notin: "k \<notin> set (map (fieldName T) (fieldList T))"
    by (simp add: find_exact_None)
  then have ne: "k \<noteq> fieldName T f" using f by auto
  have "(fieldFor cv T k = Some f) = (find (\<lambda>f'. EqualFold cv (fieldName T f') k) (fieldList T) = Some f)"
    using None by (simp add: fieldFor_def)
  also have "\<dots> = (map_option (fieldName T) (find (\<lambda>f'. EqualFold cv (fieldName T f') k) (fieldList T)) = Some (fieldName T f))"
    using d f by (rule find_inj)
  also have "\<dots> = (find (\<lambda>t. EqualFold cv t k) (map (fieldName T) (fieldList T)) = Some (fieldName T f))"
    by (simp add: find_map_name)
  finally show ?thesis using notin ne by (simp add: names_def)
next
  case (Some f')
  then have k: "fieldName T f' = k" and in': "f' \<in> set (fieldList T)"
    by (auto simp: find_Some_iff)
  have "(fieldFor cv T k = Some f) = (f' = f)" using Some by (simp add: fieldFor_def)
  also have "\<dots> = (fieldName T f = k)"
    using d f in' k by (metis distinct_map inj_onD)
  finally show ?thesis using k in' by (auto simp: names_def)
qed

lemma valuesFor_valuesAt:
  assumes "distinct (map (fieldName T) (fieldList T))" and "f \<in> set (fieldList T)"
  shows "valuesFor cv T kvs f = valuesAt cv (map (fieldName T) (fieldList T)) kvs (fieldName T f)"
  using fieldFor_names [OF assms] by (simp add: valuesFor_def valuesAt_def)

lemma fieldMatches_holds:
  assumes "distinct (map (fieldName T) (fieldList T))" and "f \<in> set (fieldList T)"
    and "fieldMatches cv T kvs r f"
  shows "holds cv (map (fieldName T) (fieldList T)) kvs (fieldName T f) (Field T r f)"
  using assms(3) valuesFor_valuesAt [OF assms(1,2)] by (simp add: fieldMatches_def holds_def)

lemma Repository_names: "map (fieldName Repository_type) (fieldList Repository_type) = Repository_keys"
  by (simp add: Repository_type_def Repository_keys_def)

lemma RepositoryConfig_names:
  "map (fieldName RepositoryConfig_type) (fieldList RepositoryConfig_type) = RepositoryConfig_keys"
  by (simp add: RepositoryConfig_type_def RepositoryConfig_keys_def)

lemma Repository_keys_distinct: "distinct Repository_keys"
  by (simp add: Repository_keys_def)

lemma RepositoryConfig_keys_distinct: "distinct RepositoryConfig_keys"
  by (simp add: RepositoryConfig_keys_def)

lemma Repository_all_fields: "f \<in> set (fieldList Repository_type)"
  by (cases f) (simp_all add: Repository_type_def)

lemma RepositoryConfig_all_fields: "f \<in> set (fieldList RepositoryConfig_type)"
  by (cases f) (simp_all add: RepositoryConfig_type_def)

lemma Repository_holds:
  assumes "matchesBody cv Repository_type kvs r"
  shows "holds cv Repository_keys kvs (Repository_name f) (Repository_Field r f)"
proof -
  have "fieldMatches cv Repository_type kvs r f"
    using assms Repository_all_fields by (rule matchesBody_field)
  then have "holds cv (map (fieldName Repository_type) (fieldList Repository_type)) kvs
      (fieldName Repository_type f) (Field Repository_type r f)"
    using Repository_keys_distinct Repository_all_fields
    by (intro fieldMatches_holds) (simp_all add: Repository_names)
  then show ?thesis by (simp add: Repository_names) (simp add: Repository_type_def)
qed

lemma RepositoryConfig_holds:
  assumes "matchesBody cv RepositoryConfig_type kvs c"
  shows "holds cv RepositoryConfig_keys kvs (RepositoryConfig_name f) (RepositoryConfig_Field c f)"
proof -
  have "fieldMatches cv RepositoryConfig_type kvs c f"
    using assms RepositoryConfig_all_fields by (rule matchesBody_field)
  then have "holds cv (map (fieldName RepositoryConfig_type) (fieldList RepositoryConfig_type)) kvs
      (fieldName RepositoryConfig_type f) (Field RepositoryConfig_type c f)"
    using RepositoryConfig_keys_distinct RepositoryConfig_all_fields
    by (intro fieldMatches_holds) (simp_all add: RepositoryConfig_names)
  then show ?thesis by (simp add: RepositoryConfig_names) (simp add: RepositoryConfig_type_def)
qed

lemma Unmarshal_Repository_matches:
  assumes "Unmarshal cv Repository_type (JObject kvs) Repository_zero = Inr r"
  shows "Repository_matches cv kvs r"
proof -
  have m: "matchesBody cv Repository_type kvs r" using assms by (rule Unmarshal_Repository)
  show ?thesis
    unfolding Repository_matches_def
    using Repository_holds [OF m, of Repository_ID] Repository_holds [OF m, of Repository_Name]
      Repository_holds [OF m, of Repository_Service]
      Repository_holds [OF m, of Repository_CommentOnPullRequests]
      Repository_holds [OF m, of Repository_SendBuildStatus]
      Repository_holds [OF m, of Repository_CommitStatusFailThreshold]
      Repository_holds [OF m, of Repository_CommitStatusFailChangeThreshold]
      Repository_holds [OF m, of Repository_HasBadge] Repository_holds [OF m, of Repository_Token]
      Repository_holds [OF m, of Repository_CreatedAt] Repository_holds [OF m, of Repository_UpdatedAt]
    by simp
qed

lemma Unmarshal_RepositoryConfig_matches:
  assumes "Unmarshal cv RepositoryConfig_type (JObject kvs) RepositoryConfig_zero = Inr c"
  shows "RepositoryConfig_matches cv kvs c"
proof -
  have m: "matchesBody cv RepositoryConfig_type kvs c" using assms by (rule Unmarshal_RepositoryConfig)
  show ?thesis
    unfolding RepositoryConfig_matches_def
    using RepositoryConfig_holds [OF m, of RepositoryConfig_Service]
      RepositoryConfig_holds [OF m, of RepositoryConfig_Name]
      RepositoryConfig_holds [OF m, of RepositoryConfig_CommentOnPullRequests]
      RepositoryConfig_holds [OF m, of RepositoryConfig_SendBuildStatus]
      RepositoryConfig_holds [OF m, of RepositoryConfig_CommitStatusFailThreshold]
      RepositoryConfig_holds [OF m, of RepositoryConfig_CommitStatusFailChangeThreshold]
    by simp
qed

lemma holds_pointer_nil:
  "holds cv ks kvs key (GBoolPtr p) \<Longrightarrow> valuesAt cv ks kvs key = [] \<Longrightarrow> p = None"
  "holds cv ks kvs key (GFloatPtr q) \<Longrightarrow> valuesAt cv ks kvs key = [] \<Longrightarrow> q = None"
  by (simp_all add: holds_def counting_def)

text \<open>
  C7. The methods do not decode the body themselves: on the success status (200 for \<open>Get\<close>
  and \<open>Update\<close>, 201 for \<open>Add\<close>) each returns \<open>resp.Result()\<close> as it is, with a nil
  error. The decoding is resty's, and resty decodes a body only when the response declares
  a JSON content type; so the property cannot hold of every success response with a
  well-formed JSON body (see the example after the theorem). It holds in this form: when
  the resty client has decoded the JSON object of the body into the object of \<open>SetResult\<close>,
  the returned struct matches the body key by key (\<open>id\<close>, \<open>name\<close>, \<open>service\<close>,
  \<open>comment_on_pull_requests\<close>, ...): every field holds the value of the member for its
  key, and a field with no member is at its zero value. For the four optional fields that
  value is nil: an omitted field is absent, not \<open>false\<close> or \<open>0\<close>.
\<close>

theorem decode_fidelity:
  "(client s1 (Get_request s1 ctx1 svc1 repo1) = (resp1, None) \<and> StatusCode resp1 = 200
    \<longrightarrow> Get s1 ctx1 svc1 repo1 = (Some (Result resp1), None)
      \<and> (Unmarshal cv Repository_type (JObject kvs1) (reqResult (Get_request s1 ctx1 svc1 repo1)) = Inr (Result resp1)
        \<longrightarrow> Repository_matches cv kvs1 (Result resp1)
          \<and> (valuesAt cv Repository_keys kvs1 ''comment_on_pull_requests'' = []
               \<longrightarrow> CommentOnPullRequests (Result resp1) = None)
          \<and> (valuesAt cv Repository_keys kvs1 ''send_build_status'' = []
               \<longrightarrow> SendBuildStatus (Result resp1) = None)
          \<and> (valuesAt cv Repository_keys kvs1 ''commit_status_fail_threshold'' = []
               \<longrightarrow> CommitStatusFailThreshold (Result resp1) = None)
          \<and> (valuesAt cv Repository_keys kvs1 ''commit_status_fail_change_threshold'' = []
               \<longrightarrow> CommitStatusFailChangeThreshold (Result resp1) = None)))
   \<and> (client s2 (Add_request s2 ctx2 data2) = (resp2, None) \<and> StatusCode resp2 = 201
    \<longrightarrow> Add s2 ctx2 data2 = (Some (Result resp2), None)
      \<and> (Unmarshal cv RepositoryConfig_type (JObject kvs2) (reqResult (Add_request s2 ctx2 data2)) = Inr (Result resp2)
        \<longrightarrow> RepositoryConfig_matches cv kvs2 (Result resp2)
          \<and> (valuesAt cv RepositoryConfig_keys kvs2 ''comment_on_pull_requests'' = []
               \<longrightarrow> cfgCommentOnPullRequests (Result resp2) = None)
          \<and> (valuesAt cv RepositoryConfig_keys kvs2 ''send_build_status'' = []
               \<longrightarrow> cfgSendBuildStatus (Result resp2) = None)
          \<and> (valuesAt cv RepositoryConfig_keys kvs2 ''commit_status_fail_threshold'' = []
               \<longrightarrow> cfgCommitStatusFailThreshold (Result resp2) = None)
          \<and> (valuesAt cv RepositoryConfig_keys kvs2 ''commit_status_fail_change_threshold'' = []
               \<longrightarrow> cfgCommitStatusFailChangeThreshold (Result resp2) = None)))
   \<and> (client s3 (Update_request s3 ctx3 svc3 repo3 data3) = (resp3, None) \<and> StatusCode resp3 = 200
    \<longrightarrow> Update s3 ctx3 svc3 repo3 data3 = (Some (Result resp3), None)
      \<and> (Unmarshal cv RepositoryConfig_type (JObject kvs3) (reqResult (Update_request s3 ctx3 svc3 repo3 data3)) = Inr (Result resp3)
        \<longrightarrow> RepositoryConfig_matches cv kvs3 (Result resp3)
          \<and> (valuesAt cv RepositoryConfig_keys kvs3 ''comment_on_pull_requests'' = []
               \<longrightarrow> cfgCommentOnPullRequests (Result resp3) = None)
          \<and> (valuesAt cv RepositoryConfig_keys kvs3 ''send_build_status'' = []
               \<longrightarrow> cfgSendBuildStatus (Result resp3) = None)
          \<and> (valuesAt cv RepositoryConfig_keys kvs3 ''commit_status_fail_threshold'' = []
               \<longrightarrow> cfgCommitStatusFailThreshold (Result resp3) = None)
          \<and> (valuesAt cv RepositoryConfig_keys kvs3 ''commit_status_fail_change_threshold'' = []
               \<longrightarrow> cfgCommitStatusFailChangeThreshold (Result resp3) = None)))"
proof (intro conjI)
  show "client s1 (Get_request s1 ctx1 svc1 repo1) = (resp1, None) \<and> StatusCode resp1 = 200
    \<longrightarrow> Get s1 ctx1 svc1 repo1 = (Some (Result resp1), None)
      \<and> (Unmarshal cv Repository_type (JObject kvs1) (reqResult (Get_request s1 ctx1 svc1 repo1)) = Inr (Result resp1)
        \<longrightarrow> Repository_matches cv kvs1 (Result resp1)
          \<and> (valuesAt cv Repository_keys kvs1 ''comment_on_pull_requests'' = []
               \<longrightarrow> CommentOnPullRequests (Result resp1) = None)
          \<and> (valuesAt cv Repository_keys kvs1 ''send_build_status'' = []
               \<longrightarrow> SendBuildStatus (Result resp1) = None)
          \<and> (valuesAt cv Repository_keys kvs1 ''commit_status_fail_threshold'' = []
               \<longrightarrow> CommitStatusFailThreshold (Result resp1) = None)
          \<and> (valuesAt cv Repository_keys kvs1 ''commit_status_fail_change_threshold'' = []
               \<longrightarrow> CommitStatusFailChangeThreshold (Result resp1) = None))"
  proof
    assume h: "client s1 (Get_request s1 ctx1 svc1 repo1) = (resp1, None) \<and> StatusCode resp1 = 200"
    then have "client s1 (Get_request s1 ctx1 svc1 repo1) = (resp1, None)" by simp
    from Get_response [OF this] h have ret: "Get s1 ctx1 svc1 repo1 = (Some (Result resp1), None)" by simp
    have dec: "Unmarshal cv Repository_type (JObject kvs1) (reqResult (Get_request s1 ctx1 svc1 repo1)) = Inr (Result resp1)
        \<longrightarrow> Repository_matches cv kvs1 (Result resp1)
          \<and> (valuesAt cv Repository_keys kvs1 ''comment_on_pull_requests'' = []
               \<longrightarrow> CommentOnPullRequests (Result resp1) = None)
          \<and> (valuesAt cv Repository_keys kvs1 ''send_build_status'' = []
               \<longrightarrow> SendBuildStatus (Result resp1) = None)
          \<and> (valuesAt cv Repository_keys kvs1 ''commit_status_fail_threshold'' = []
               \<longrightarrow> CommitStatusFailThreshold (Result resp1) = None)
          \<and> (valuesAt cv Repository_keys kvs1 ''commit_status_fail_change_threshold'' = []
               \<longrightarrow> CommitStatusFailChangeThreshold (Result resp1) = None)"
    proof
      assume "Unmarshal cv Repository_type (JObject kvs1) (reqResult (Get_request s1 ctx1 svc1 repo1)) = Inr (Result resp1)"
      then have "Unmarshal cv Repository_type (JObject kvs1) Repository_zero = Inr (Result resp1)"
        by (simp add: Get_request_def)
      then have m: "Repository_matches cv kvs1 (Result resp1)" by (rule Unmarshal_Repository_matches)
      show "Repository_matches cv kvs1 (Result resp1)
          \<and> (valuesAt cv Repository_keys kvs1 ''comment_on_pull_requests'' = []
               \<longrightarrow> CommentOnPullRequests (Result resp1) = None)
          \<and> (valuesAt cv Repository_keys kvs1 ''send_build_status'' = []
               \<longrightarrow> SendBuildStatus (Result resp1) = None)
          \<and> (valuesAt cv Repository_keys kvs1 ''commit_status_fail_threshold'' = []
               \<longrightarrow> CommitStatusFailThreshold (Result resp1) = None)
          \<and> (valuesAt cv Repository_keys kvs1 ''commit_status_fail_change_threshold'' = []
               \<longrightarrow> CommitStatusFailChangeThreshold (Result resp1) = None)"
        using m holds_pointer_nil by (auto simp: Repository_matches_def)
    qed
    from ret dec show "Get s1 ctx1 svc1 repo1 = (Some (Result resp1), None)
      \<and> (Unmarshal cv Repository_type (JObject kvs1) (reqResult (Get_request s1 ctx1 svc1 repo1)) = Inr (Result resp1)
        \<longrightarrow> Repository_matches cv kvs1 (Result resp1)
          \<and> (valuesAt cv Repository_keys kvs1 ''comment_on_pull_requests'' = []
               \<longrightarrow> CommentOnPullRequests (Result resp1) = None)
          \<and> (valuesAt cv Repository_keys kvs1 ''send_build_status'' = []
               \<longrightarrow> SendBuildStatus (Result resp1) = None)
          \<and> (valuesAt cv Repository_keys kvs1 ''commit_status_fail_threshold'' = []
               \<longrightarrow> CommitStatusFailThreshold (Result resp1) = None)
          \<and> (valuesAt cv Repository_keys kvs1 ''commit_status_fail_change_threshold'' = []
               \<longrightarrow> CommitStatusFailChangeThreshold (Result resp1) = None))" by (rule conjI)
  qed
next
  show "client s2 (Add_request s2 ctx2 data2) = (resp2, None) \<and> StatusCode resp2 = 201
    \<longrightarrow> Add s2 ctx2 data2 = (Some (Result resp2), None)
      \<and> (Unmarshal cv RepositoryConfig_type (JObject kvs2) (reqResult (Add_request s2 ctx2 data2)) = Inr (Result resp2)
        \<longrightarrow> RepositoryConfig_matches cv kvs2 (Result resp2)
          \<and> (valuesAt cv RepositoryConfig_keys kvs2 ''comment_on_pull_requests'' = []
               \<longrightarrow> cfgCommentOnPullRequests (Result resp2) = None)
          \<and> (valuesAt cv RepositoryConfig_keys kvs2 ''send_build_status'' = []
               \<longrightarrow> cfgSendBuildStatus (Result resp2) = None)
          \<and> (valuesAt cv RepositoryConfig_keys kvs2 ''commit_status_fail_threshold'' = []
               \<longrightarrow> cfgCommitStatusFailThreshold (Result resp2) = None)
          \<and> (valuesAt cv RepositoryConfig_keys kvs2 ''commit_status_fail_change_threshold'' = []
               \<longrightarrow> cfgCommitStatusFailChangeThreshold (Result resp2) = None))"
  proof
    assume h: "client s2 (Add_request s2 ctx2 data2) = (resp2, None) \<and> StatusCode resp2 = 201"
    then have "client s2 (Add_request s2 ctx2 data2) = (resp2, None)" by simp
    from Add_response [OF this] h have ret: "Add s2 ctx2 data2 = (Some (Result resp2), None)" by simp
    have dec: "Unmarshal cv RepositoryConfig_type (JObject kvs2) (reqResult (Add_request s2 ctx2 data2)) = Inr (Result resp2)
        \<longrightarrow> RepositoryConfig_matches cv kvs2 (Result resp2)
          \<and> (valuesAt cv RepositoryConfig_keys kvs2 ''comment_on_pull_requests'' = []
               \<longrightarrow> cfgCommentOnPullRequests (Result resp2) = None)
          \<and> (valuesAt cv RepositoryConfig_keys kvs2 ''send_build_status'' = []
               \<longrightarrow> cfgSendBuildStatus (Result resp2) = None)
          \<and> (valuesAt cv RepositoryConfig_keys kvs2 ''commit_status_fail_threshold'' = []
               \<longrightarrow> cfgCommitStatusFailThreshold (Result resp2) = None)
          \<and> (valuesAt cv RepositoryConfig_keys kvs2 ''commit_status_fail_change_threshold'' = []
               \<longrightarrow> cfgCommitStatusFailChangeThreshold (Result resp2) = None)"
    proof
      assume "Unmarshal cv RepositoryConfig_type (JObject kvs2) (reqResult (Add_request s2 ctx2 data2)) = Inr (Result resp2)"
      then have "Unmarshal cv RepositoryConfig_type (JObject kvs2) RepositoryConfig_zero = Inr (Result resp2)"
        by (simp add: Add_request_def)
      then have m: "RepositoryConfig_matches cv kvs2 (Result resp2)" by (rule Unmarshal_RepositoryConfig_matches)
      show "RepositoryConfig_matches cv kvs2 (Result resp2)
          \<and> (valuesAt cv RepositoryConfig_keys kvs2 ''comment_on_pull_requests'' = []
               \<longrightarrow> cfgCommentOnPullRequests (Result resp2) = None)
          \<and> (valuesAt cv RepositoryConfig_keys kvs2 ''send_build_status'' = []
               \<longrightarrow> cfgSendBuildStatus (Result resp2) = None)
          \<and> (valuesAt cv RepositoryConfig_keys kvs2 ''commit_status_fail_threshold'' = []
               \<longrightarrow> cfgCommitStatusFailThreshold (Result resp2) = None)
          \<and> (valuesAt cv RepositoryConfig_keys kvs2 ''commit_status_fail_change_threshold'' = []
               \<longrightarrow> cfgCommitStatusFailChangeThreshold (Result resp2) = None)"
        using m holds_pointer_nil by (auto simp: RepositoryConfig_matches_def)
    qed
    from ret dec show "Add s2 ctx2 data2 = (Some (Result resp2), None)
      \<and> (Unmarshal cv RepositoryConfig_type (JObject kvs2) (reqResult (Add_request s2 ctx2 data2)) = Inr (Result resp2)
        \<longrightarrow> RepositoryConfig_matches cv kvs2 (Result resp2)
          \<and> (valuesAt cv RepositoryConfig_keys kvs2 ''comment_on_pull_requests'' = []
               \<longrightarrow> cfgCommentOnPullRequests (Result resp2) = None)
          \<and> (valuesAt cv RepositoryConfig_keys kvs2 ''send_build_status'' = []
               \<longrightarrow> cfgSendBuildStatus (Result resp2) = None)
          \<and> (valuesAt cv RepositoryConfig_keys kvs2 ''commit_status_fail_threshold'' = []
               \<longrightarrow> cfgCommitStatusFailThreshold (Result resp2) = None)
          \<and> (valuesAt cv RepositoryConfig_keys kvs2 ''commit_status_fail_change_threshold'' = []
               \<longrightarrow> cfgCommitStatusFailChangeThreshold (Result resp2) = None))" by (rule conjI)
  qed
next
  show "client s3 (Update_request s3 ctx3 svc3 repo3 data3) = (resp3, None) \<and> StatusCode resp3 = 200
    \<longrightarrow> Update s3 ctx3 svc3 repo3 data3 = (Some (Result resp3), None)
      \<and> (Unmarshal cv RepositoryConfig_type (JObject kvs3) (reqResult (Update_request s3 ctx3 svc3 repo3 data3)) = Inr (Result resp3)
        \<longrightarrow> RepositoryConfig_matches cv kvs3 (Result resp3)
          \<and> (valuesAt cv RepositoryConfig_keys kvs3 ''comment_on_pull_requests'' = []
               \<longrightarrow> cfgCommentOnPullRequests (Result resp3) = None)
          \<and> (valuesAt cv RepositoryConfig_keys kvs3 ''send_build_status'' = []
               \<longrightarrow> cfgSendBuildStatus (Result resp3) = None)
          \<and> (valuesAt cv RepositoryConfig_keys kvs3 ''commit_status_fail_threshold'' = []
               \<longrightarrow> cfgCommitStatusFailThreshold (Result resp3) = None)
          \<and> (valuesAt cv RepositoryConfig_keys kvs3 ''commit_status_fail_change_threshold'' = []
               \<longrightarrow> cfgCommitStatusFailChangeThreshold (Result resp3) = None))"
  proof
    assume h: "client s3 (Update_request s3 ctx3 svc3 repo3 data3) = (resp3, None) \<and> StatusCode resp3 = 200"
    then have "client s3 (Update_request s3 ctx3 svc3 repo3 data3) = (resp3, None)" by simp
    from Update_response [OF this] h have ret: "Update s3 ctx3 svc3 repo3 data3 = (Some (Result resp3), None)" by simp
    have dec: "Unmarshal cv RepositoryConfig_type (JObject kvs3) (reqResult (Update_request s3 ctx3 svc3 repo3 data3)) = Inr (Result resp3)
        \<longrightarrow> RepositoryConfig_matches cv kvs3 (Result resp3)
          \<and> (valuesAt cv RepositoryConfig_keys kvs3 ''comment_on_pull_requests'' = []
               \<longrightarrow> cfgCommentOnPullRequests (Result resp3) = None)
          \<and> (valuesAt cv RepositoryConfig_keys kvs3 ''send_build_status'' = []
               \<longrightarrow> cfgSendBuildStatus (Result resp3) = None)
          \<and> (valuesAt cv RepositoryConfig_keys kvs3 ''commit_status_fail_threshold'' = []
               \<longrightarrow> cfgCommitStatusFailThreshold (Result resp3) = None)
          \<and> (valuesAt cv RepositoryConfig_keys kvs3 ''commit_status_fail_change_threshold'' = []
               \<longrightarrow> cfgCommitStatusFailChangeThreshold (Result resp3) = None)"
    proof
      assume "Unmarshal cv RepositoryConfig_type (JObject kvs3) (reqResult (Update_request s3 ctx3 svc3 repo3 data3)) = Inr (Result resp3)"
      then have "Unmarshal cv RepositoryConfig_type (JObject kvs3) RepositoryConfig_zero = Inr (Result resp3)"
        by (simp add: Update_request_def)
      then have m: "RepositoryConfig_matches cv kvs3 (Result resp3)" by (rule Unmarshal_RepositoryConfig_matches)
      show "RepositoryConfig_matches cv kvs3 (Result resp3)
          \<and> (valuesAt cv RepositoryConfig_keys kvs3 ''comment_on_pull_requests'' = []
               \<longrightarrow> cfgCommentOnPullRequests (Result resp3) = None)
          \<and> (valuesAt cv RepositoryConfig_keys kvs3 ''send_build_status'' = []
               \<longrightarrow> cfgSendBuildStatus (Result resp3) = None)
          \<and> (valuesAt cv RepositoryConfig_keys kvs3 ''commit_status_fail_threshold'' = []
               \<longrightarrow> cfgCommitStatusFailThreshold (Result resp3) = None)
          \<and> (valuesAt cv RepositoryConfig_keys kvs3 ''commit_status_fail_change_threshold'' = []
               \<longrightarrow> cfgCommitStatusFailChangeThreshold (Result resp3) = None)"
        using m holds_pointer_nil by (auto simp: RepositoryConfig_matches_def)
    qed
    from ret dec show "Update s3 ctx3 svc3 repo3 data3 = (Some (Result resp3), None)
      \<and> (Unmarshal cv RepositoryConfig_type (JObject kvs3) (reqResult (Update_request s3 ctx3 svc3 repo3 data3)) = Inr (Result resp3)
        \<longrightarrow> RepositoryConfig_matches cv kvs3 (Result resp3)
          \<and> (valuesAt cv RepositoryConfig_keys kvs3 ''comment_on_pull_requests'' = []
               \<longrightarrow> cfgCommentOnPullRequests (Result resp3) = None)
          \<and> (valuesAt cv RepositoryConfig_keys kvs3 ''send_build_status'' = []
               \<longrightarrow> cfgSendBuildStatus (Result resp3) = None)
          \<and> (valuesAt cv RepositoryConfig_keys kvs3 ''commit_status_fail_threshold'' = []
               \<longrightarrow> cfgCommitStatusFailThreshold (Result resp3) = None)
          \<and> (valuesAt cv RepositoryConfig_keys kvs3 ''commit_status_fail_change_threshold'' = []
               \<longrightarrow> cfgCommitStatusFailChangeThreshold (Result resp3) = None))" by (rule conjI)
  qed
qed

theorem decode_fidelity_witness:
  "render
       (JObject [(''id'', JNumber ''42''), (''name'', JString ''org/repo''), (''service'', JString ''github''),
                 (''has_badge'', JBool True), (''send_build_status'', JBool False),
                 (''commit_status_fail_threshold'', JNumber ''80''), (''language'', JArray [])])
     = ''{\"id\":42,\"name\":\"org/repo\",\"service\":\"github\",\"has_badge\":true,\"send_build_status\":false,\"commit_status_fail_threshold\":80,\"language\":[]}''
   \<and> render
       (JObject [(''service'', JString ''github''), (''name'', JString ''org/repo''),
                 (''comment_on_pull_requests'', JBool False), (''send_build_status'', JNull)])
     = ''{\"service\":\"github\",\"name\":\"org/repo\",\"comment_on_pull_requests\":false,\"send_build_status\":null}''
   \<and> Unmarshal example_conv Repository_type
       (JObject [(''id'', JNumber ''42''), (''name'', JString ''org/repo''), (''service'', JString ''github''),
                 (''has_badge'', JBool True), (''send_build_status'', JBool False),
                 (''commit_status_fail_threshold'', JNumber ''80''), (''language'', JArray [])])
       Repository_zero
     = Inr \<lparr>ID = 42, Name = ''org/repo'', Service = ''github'', CommentOnPullRequests = None,
            SendBuildStatus = Some False, CommitStatusFailThreshold = Some (Float64 0x4054000000000000),
            CommitStatusFailChangeThreshold = None, HasBadge = True, Token = [], CreatedAt = [],
            UpdatedAt = []\<rparr>
   \<and> Get (serving None 200
          ''{\"id\":42,\"name\":\"org/repo\",\"service\":\"github\",\"has_badge\":true,\"send_build_status\":false,\"commit_status_fail_threshold\":80,\"language\":[]}''
          \<lparr>ID = 42, Name = ''org/repo'', Service = ''github'', CommentOnPullRequests = None,
            SendBuildStatus = Some False, CommitStatusFailThreshold = Some (Float64 0x4054000000000000),
            CommitStatusFailChangeThreshold = None, HasBadge = True, Token = [], CreatedAt = [],
            UpdatedAt = []\<rparr>
          ''https://coveralls.io'') () ''github'' ''org/repo''
     = (Some \<lparr>ID = 42, Name = ''org/repo'', Service = ''github'', CommentOnPullRequests = None,
            SendBuildStatus = Some False, CommitStatusFailThreshold = Some (Float64 0x4054000000000000),
            CommitStatusFailChangeThreshold = None, HasBadge = True, Token = [], CreatedAt = [],
            UpdatedAt = []\<rparr>, None)
   \<and> Repository_matches example_conv
        [(''id'', JNumber ''42''), (''name'', JString ''org/repo''), (''service'', JString ''github''),
         (''has_badge'', JBool True), (''send_build_status'', JBool False),
         (''commit_status_fail_threshold'', JNumber ''80''), (''language'', JArray [])]
        \<lparr>ID = 42, Name = ''org/repo'', Service = ''github'', CommentOnPullRequests = None,
            SendBuildStatus = Some False, CommitStatusFailThreshold = Some (Float64 0x4054000000000000),
            CommitStatusFailChangeThreshold = None, HasBadge = True, Token = [], CreatedAt = [],
            UpdatedAt = []\<rparr>
   \<and> Unmarshal example_conv RepositoryConfig_type
       (JObject [(''service'', JString ''github''), (''name'', JString ''org/repo''),
                 (''comment_on_pull_requests'', JBool False), (''send_build_status'', JNull)])
       RepositoryConfig_zero
     = Inr \<lparr>cfgService = ''github'', cfgName = ''org/repo'', cfgCommentOnPullRequests = Some False,
            cfgSendBuildStatus = None, cfgCommitStatusFailThreshold = None,
            cfgCommitStatusFailChangeThreshold = None\<rparr>
   \<and> Add (serving (Some [(''repo'', Some \<lparr>cfgService = ''github'', cfgName = ''org/repo'', cfgCommentOnPullRequests = Some False,
            cfgSendBuildStatus = None, cfgCommitStatusFailThreshold = None,
            cfgCommitStatusFailChangeThreshold = None\<rparr>)]) 201
          ''{\"service\":\"github\",\"name\":\"org/repo\",\"comment_on_pull_requests\":false,\"send_build_status\":null}''
          \<lparr>cfgService = ''github'', cfgName = ''org/repo'', cfgCommentOnPullRequests = Some False,
            cfgSendBuildStatus = None, cfgCommitStatusFailThreshold = None,
            cfgCommitStatusFailChangeThreshold = None\<rparr>
          ''https://coveralls.io'') ()
          (Some \<lparr>cfgService = ''github'', cfgName = ''org/repo'', cfgCommentOnPullRequests = Some False,
            cfgSendBuildStatus = None, cfgCommitStatusFailThreshold = None,
            cfgCommitStatusFailChangeThreshold = None\<rparr>)
     = (Some \<lparr>cfgService = ''github'', cfgName = ''org/repo'', cfgCommentOnPullRequests = Some False,
            cfgSendBuildStatus = None, cfgCommitStatusFailThreshold = None,
            cfgCommitStatusFailChangeThreshold = None\<rparr>, None)
   \<and> Update (serving (Some [(''repo'', Some \<lparr>cfgService = ''github'', cfgName = ''org/repo'', cfgCommentOnPullRequests = Some False,
            cfgSendBuildStatus = None, cfgCommitStatusFailThreshold = None,
            cfgCommitStatusFailChangeThreshold = None\<rparr>)]) 200
          ''{\"service\":\"github\",\"name\":\"org/repo\",\"comment_on_pull_requests\":false,\"send_build_status\":null}''
          \<lparr>cfgService = ''github'', cfgName = ''org/repo'', cfgCommentOnPullRequests = Some False,
            cfgSendBuildStatus = None, cfgCommitStatusFailThreshold = None,
            cfgCommitStatusFailChangeThreshold = None\<rparr>
          ''https://coveralls.io'') () ''github'' ''org/repo''
          (Some \<lparr>cfgService = ''github'', cfgName = ''org/repo'', cfgCommentOnPullRequests = Some False,
            cfgSendBuildStatus = None, cfgCommitStatusFailThreshold = None,
            cfgCommitStatusFailChangeThreshold = None\<rparr>)
     = (Some \<lparr>cfgService = ''github'', cfgName = ''org/repo'', cfgCommentOnPullRequests = Some False,
            cfgSendBuildStatus = None, cfgCommitStatusFailThreshold = None,
            cfgCommitStatusFailChangeThreshold = None\<rparr>, None)
   \<and> RepositoryConfig_matches example_conv
        [(''service'', JString ''github''), (''name'', JString ''org/repo''),
         (''comment_on_pull_requests'', JBool False), (''send_build_status'', JNull)]
        \<lparr>cfgService = ''github'', cfgName = ''org/repo'', cfgCommentOnPullRequests = Some False,
            cfgSendBuildStatus = None, cfgCommitStatusFailThreshold = None,
            cfgCommitStatusFailChangeThreshold = None\<rparr>"
proof -
  let ?kr = "[(''id'', JNumber ''42''), (''name'', JString ''org/repo''), (''service'', JString ''github''),
              (''has_badge'', JBool True), (''send_build_status'', JBool False),
              (''commit_status_fail_threshold'', JNumber ''80''), (''language'', JArray [])]"
  let ?r = "\<lparr>ID = 42, Name = ''org/repo'', Service = ''github'', CommentOnPullRequests = None,
            SendBuildStatus = Some False, CommitStatusFailThreshold = Some (Float64 0x4054000000000000),
            CommitStatusFailChangeThreshold = None, HasBadge = True, Token = [], CreatedAt = [],
            UpdatedAt = []\<rparr>"
  let ?kc = "[(''service'', JString ''github''), (''name'', JString ''org/repo''),
              (''comment_on_pull_requests'', JBool False), (''send_build_status'', JNull)]"
  let ?c = "\<lparr>cfgService = ''github'', cfgName = ''org/repo'', cfgCommentOnPullRequests = Some False,
            cfgSendBuildStatus = None, cfgCommitStatusFailThreshold = None,
            cfgCommitStatusFailChangeThreshold = None\<rparr>"
  let ?s1 = "serving None 200
          ''{\"id\":42,\"name\":\"org/repo\",\"service\":\"github\",\"has_badge\":true,\"send_build_status\":false,\"commit_status_fail_threshold\":80,\"language\":[]}'' ?r ''https://coveralls.io''"
  let ?s2 = "serving (Some [(''repo'', Some ?c)]) 201
          ''{\"service\":\"github\",\"name\":\"org/repo\",\"comment_on_pull_requests\":false,\"send_build_status\":null}'' ?c ''https://coveralls.io''"
  let ?s3 = "serving (Some [(''repo'', Some ?c)]) 200
          ''{\"service\":\"github\",\"name\":\"org/repo\",\"comment_on_pull_requests\":false,\"send_build_status\":null}'' ?c ''https://coveralls.io''"
  have u1: "Unmarshal example_conv Repository_type (JObject ?kr) Repository_zero = Inr ?r"
    by (simp add: Unmarshal_def fieldFor_def Repository_type_def Repository_zero_def example_conv_def)
  have u2: "Unmarshal example_conv RepositoryConfig_type (JObject ?kc) RepositoryConfig_zero = Inr ?c"
    by (simp add: Unmarshal_def fieldFor_def RepositoryConfig_type_def RepositoryConfig_zero_def example_conv_def)
  have c1: "client ?s1 (Get_request ?s1 () ''github'' ''org/repo'') = (\<lparr>StatusCode = 200, Body = ''{\"id\":42,\"name\":\"org/repo\",\"service\":\"github\",\"has_badge\":true,\"send_build_status\":false,\"commit_status_fail_threshold\":80,\"language\":[]}'', Result = ?r\<rparr>, None)"
    by (simp add: serving_client Get_request_def)
  have c2: "client ?s2 (Add_request ?s2 () (Some ?c)) = (\<lparr>StatusCode = 201, Body = ''{\"service\":\"github\",\"name\":\"org/repo\",\"comment_on_pull_requests\":false,\"send_build_status\":null}'', Result = ?c\<rparr>, None)"
    by (simp add: serving_client Add_request_def)
  have c3: "client ?s3 (Update_request ?s3 () ''github'' ''org/repo'' (Some ?c)) = (\<lparr>StatusCode = 200, Body = ''{\"service\":\"github\",\"name\":\"org/repo\",\"comment_on_pull_requests\":false,\"send_build_status\":null}'', Result = ?c\<rparr>, None)"
    by (simp add: serving_client Update_request_def)
  have r1: "reqResult (Get_request ?s1 () ''github'' ''org/repo'') = Repository_zero"
    by (simp add: Get_request_def)
  have r2: "reqResult (Add_request ?s2 () (Some ?c)) = RepositoryConfig_zero"
    by (simp add: Add_request_def)
  have r3: "reqResult (Update_request ?s3 () ''github'' ''org/repo'' (Some ?c)) = RepositoryConfig_zero"
    by (simp add: Update_request_def)
  have main: "Unmarshal example_conv Repository_type
       (JObject [(''id'', JNumber ''42''), (''name'', JString ''org/repo''), (''service'', JString ''github''),
                 (''has_badge'', JBool True), (''send_build_status'', JBool False),
                 (''commit_status_fail_threshold'', JNumber ''80''), (''language'', JArray [])])
       Repository_zero
     = Inr \<lparr>ID = 42, Name = ''org/repo'', Service = ''github'', CommentOnPullRequests = None,
            SendBuildStatus = Some False, CommitStatusFailThreshold = Some (Float64 0x4054000000000000),
            CommitStatusFailChangeThreshold = None, HasBadge = True, Token = [], CreatedAt = [],
            UpdatedAt = []\<rparr>
   \<and> Get (serving None 200
          ''{\"id\":42,\"name\":\"org/repo\",\"service\":\"github\",\"has_badge\":true,\"send_build_status\":false,\"commit_status_fail_threshold\":80,\"language\":[]}''
          \<lparr>ID = 42, Name = ''org/repo'', Service = ''github'', CommentOnPullRequests = None,
            SendBuildStatus = Some False, CommitStatusFailThreshold = Some (Float64 0x4054000000000000),
            CommitStatusFailChangeThreshold = None, HasBadge = True, Token = [], CreatedAt = [],
            UpdatedAt = []\<rparr>
          ''https://coveralls.io'') () ''github'' ''org/repo''
     = (Some \<lparr>ID = 42, Name = ''org/repo'', Service = ''github'', CommentOnPullRequests = None,
            SendBuildStatus = Some False, CommitStatusFailThreshold = Some (Float64 0x4054000000000000),
            CommitStatusFailChangeThreshold = None, HasBadge = True, Token = [], CreatedAt = [],
            UpdatedAt = []\<rparr>, None)
   \<and> Repository_matches example_conv
        [(''id'', JNumber ''42''), (''name'', JString ''org/repo''), (''service'', JString ''github''),
         (''has_badge'', JBool True), (''send_build_status'', JBool False),
         (''commit_status_fail_threshold'', JNumber ''80''), (''language'', JArray [])]
        \<lparr>ID = 42, Name = ''org/repo'', Service = ''github'', CommentOnPullRequests = None,
            SendBuildStatus = Some False, CommitStatusFailThreshold = Some (Float64 0x4054000000000000),
            CommitStatusFailChangeThreshold = None, HasBadge = True, Token = [], CreatedAt = [],
            UpdatedAt = []\<rparr>
   \<and> Unmarshal example_conv RepositoryConfig_type
       (JObject [(''service'', JString ''github''), (''name'', JString ''org/repo''),
                 (''comment_on_pull_requests'', JBool False), (''send_build_status'', JNull)])
       RepositoryConfig_zero
     = Inr \<lparr>cfgService = ''github'', cfgName = ''org/repo'', cfgCommentOnPullRequests = Some False,
            cfgSendBuildStatus = None, cfgCommitStatusFailThreshold = None,
            cfgCommitStatusFailChangeThreshold = None\<rparr>
   \<and> Add (serving (Some [(''repo'', Some \<lparr>cfgService = ''github'', cfgName = ''org/repo'', cfgCommentOnPullRequests = Some False,
            cfgSendBuildStatus = None, cfgCommitStatusFailThreshold = None,
            cfgCommitStatusFailChangeThreshold = None\<rparr>)]) 201
          ''{\"service\":\"github\",\"name\":\"org/repo\",\"comment_on_pull_requests\":false,\"send_build_status\":null}''
          \<lparr>cfgService = ''github'', cfgName = ''org/repo'', cfgCommentOnPullRequests = Some False,
            cfgSendBuildStatus = None, cfgCommitStatusFailThreshold = None,
            cfgCommitStatusFailChangeThreshold = None\<rparr>
          ''https://coveralls.io'') ()
          (Some \<lparr>cfgService = ''github'', cfgName = ''org/repo'', cfgCommentOnPullRequests = Some False,
            cfgSendBuildStatus = None, cfgCommitStatusFailThreshold = None,
            cfgCommitStatusFailChangeThreshold = None\<rparr>)
     = (Some \<lparr>cfgService = ''github'', cfgName = ''org/repo'', cfgCommentOnPullRequests = Some False,
            cfgSendBuildStatus = None, cfgCommitStatusFailThreshold = None,
            cfgCommitStatusFailChangeThreshold = None\<rparr>, None)
   \<and> Update (serving (Some [(''repo'', Some \<lparr>cfgService = ''github'', cfgName = ''org/repo'', cfgCommentOnPullRequests = Some False,
            cfgSendBuildStatus = None, cfgCommitStatusFailThreshold = None,
            cfgCommitStatusFailChangeThreshold = None\<rparr>)]) 200
          ''{\"service\":\"github\",\"name\":\"org/repo\",\"comment_on_pull_requests\":false,\"send_build_status\":null}''
          \<lparr>cfgService = ''github'', cfgName = ''org/repo'', cfgCommentOnPullRequests = Some False,
            cfgSendBuildStatus = None, cfgCommitStatusFailThreshold = None,
            cfgCommitStatusFailChangeThreshold = None\<rparr>
          ''https://coveralls.io'') () ''github'' ''org/repo''
          (Some \<lparr>cfgService = ''github'', cfgName = ''org/repo'', cfgCommentOnPullRequests = Some False,
            cfgSendBuildStatus = None, cfgCommitStatusFailThreshold = None,
            cfgCommitStatusFailChangeThreshold = None\<rparr>)
     = (Some \<lparr>cfgService = ''github'', cfgName = ''org/repo'', cfgCommentOnPullRequests = Some False,
            cfgSendBuildStatus = None, cfgCommitStatusFailThreshold = None,
            cfgCommitStatusFailChangeThreshold = None\<rparr>, None)
   \<and> RepositoryConfig_matches example_conv
        [(''service'', JString ''github''), (''name'', JString ''org/repo''),
         (''comment_on_pull_requests'', JBool False), (''send_build_status'', JNull)]
        \<lparr>cfgService = ''github'', cfgName = ''org/repo'', cfgCommentOnPullRequests = Some False,
            cfgSendBuildStatus = None, cfgCommitStatusFailThreshold = None,
            cfgCommitStatusFailChangeThreshold = None\<rparr>"
    using decode_fidelity
      [where ?s1.0 = ?s1 and ?ctx1.0 = "()" and ?svc1.0 = "''github''" and ?repo1.0 = "''org/repo''"
         and ?resp1.0 = "\<lparr>StatusCode = 200, Body = ''{\"id\":42,\"name\":\"org/repo\",\"service\":\"github\",\"has_badge\":true,\"send_build_status\":false,\"commit_status_fail_threshold\":80,\"language\":[]}'', Result = ?r\<rparr>" and cv = example_conv and ?kvs1.0 = ?kr
         and ?s2.0 = ?s2 and ?ctx2.0 = "()" and ?data2.0 = "Some ?c"
         and ?resp2.0 = "\<lparr>StatusCode = 201, Body = ''{\"service\":\"github\",\"name\":\"org/repo\",\"comment_on_pull_requests\":false,\"send_build_status\":null}'', Result = ?c\<rparr>" and ?kvs2.0 = ?kc
         and ?s3.0 = ?s3 and ?ctx3.0 = "()" and ?svc3.0 = "''github''" and ?repo3.0 = "''org/repo''" and ?data3.0 = "Some ?c"
         and ?resp3.0 = "\<lparr>StatusCode = 200, Body = ''{\"service\":\"github\",\"name\":\"org/repo\",\"comment_on_pull_requests\":false,\"send_build_status\":null}'', Result = ?c\<rparr>" and ?kvs3.0 = ?kc]
    unfolding c1 c2 c3 r1 r2 r3 u1 u2
    by simp
  have t1: "render
       (JObject [(''id'', JNumber ''42''), (''name'', JString ''org/repo''), (''service'', JString ''github''),
                 (''has_badge'', JBool True), (''send_build_status'', JBool False),
                 (''commit_status_fail_threshold'', JNumber ''80''), (''language'', JArray [])])
     = ''{\"id\":42,\"name\":\"org/repo\",\"service\":\"github\",\"has_badge\":true,\"send_build_status\":false,\"commit_status_fail_threshold\":80,\"language\":[]}''"
    by (simp add: quote_def)
  have t2: "render
       (JObject [(''service'', JString ''github''), (''name'', JString ''org/repo''),
                 (''comment_on_pull_requests'', JBool False), (''send_build_status'', JNull)])
     = ''{\"service\":\"github\",\"name\":\"org/repo\",\"comment_on_pull_requests\":false,\"send_build_status\":null}''"
    by (simp add: quote_def)
  show ?thesis
    by (rule conjI [OF t1 conjI [OF t2 main]])
qed

text \<open>
  Without the decoding the property fails: a 200 response whose body is the JSON text of a
  repository, which resty has not decoded, gives the zero struct, and the zero struct does
  not match the body.
\<close>

theorem decode_fidelity_counterexample:
  "render (JObject [(''id'', JNumber ''42''), (''name'', JString ''org/repo'')])
     = ''{\"id\":42,\"name\":\"org/repo\"}''
   \<and> Get (answering 200 ''{\"id\":42,\"name\":\"org/repo\"}'' ''https://coveralls.io'') () ''github'' ''org/repo''
     = (Some Repository_zero, None)
   \<and> ID Repository_zero = 0 \<and> Name Repository_zero = []
   \<and> \<not> Repository_matches example_conv [(''id'', JNumber ''42''), (''name'', JString ''org/repo'')] Repository_zero"
proof -
  have "render (JObject [(''id'', JNumber ''42''), (''name'', JString ''org/repo'')])
     = ''{\"id\":42,\"name\":\"org/repo\"}''"
    by (simp add: quote_def)
  moreover have "Get (answering 200 ''{\"id\":42,\"name\":\"org/repo\"}'' ''https://coveralls.io'') () ''github'' ''org/repo''
     = (Some Repository_zero, None)"
    by (simp add: Get_def answering_client Get_request_def status_defs)
  moreover have "ID Repository_zero = 0 \<and> Name Repository_zero = []"
    by (simp add: Repository_zero_def)
  moreover have "\<not> holds example_conv Repository_keys [(''id'', JNumber ''42''), (''name'', JString ''org/repo'')]
      ''id'' (GInt (ID Repository_zero))"
    by (simp add: holds_def valuesAt_def names_def counting_def example_conv_def Repository_zero_def)
  then have "\<not> Repository_matches example_conv [(''id'', JNumber ''42''), (''name'', JString ''org/repo'')] Repository_zero"
    by (simp add: Repository_matches_def)
  ultimately show ?thesis by simp
qed

end
